theory Spec2Isabelle
  imports Complex_Main "HOL-Library.Signed_Division" "HOL-Library.Word" "HOL-Library.Sublist"
    "HOL-Library.Multiset"
begin

unbundle bit_operations_syntax

section \<open>C++ \<^verbatim>\<open>int\<close> arithmetic\<close>

text \<open>
  The node compilers compute task sizes with the C++ type \<^verbatim>\<open>int\<close> (32 bits). Division
  truncates towards zero; division by zero and signed overflow are undefined behaviour.
  Both are modelled as faults, so that every arithmetic step of the source is a branch of
  the model. A failed \<^verbatim>\<open>assert\<close> is a fault as well.
\<close>

datatype fault = DivisionByZero | SignedOverflow | AssertionFailed

definition INT_MIN :: int where
  "INT_MIN = - 2147483648"

definition INT_MAX :: int where
  "INT_MAX = 2147483647"

definition to_int :: "int \<Rightarrow> fault + int" where
  "to_int x = (if INT_MIN \<le> x \<and> x \<le> INT_MAX then Inr x else Inl SignedOverflow)"

definition int_add :: "int \<Rightarrow> int \<Rightarrow> fault + int" where
  "int_add a b = to_int (a + b)"

definition int_sub :: "int \<Rightarrow> int \<Rightarrow> fault + int" where
  "int_sub a b = to_int (a - b)"

definition int_mul :: "int \<Rightarrow> int \<Rightarrow> fault + int" where
  "int_mul a b = to_int (a * b)"

definition int_div :: "int \<Rightarrow> int \<Rightarrow> fault + int" where
  "int_div a b = (if b = 0 then Inl DivisionByZero else to_int (a sdiv b))"

section \<open>Task splitting (BinaryConvolutionalLayerNode.cpp)\<close>

text \<open>
  \<^verbatim>\<open>int CeilDiv(int a, int b) { return (a - 1) / b + 1; }\<close>
\<close>

definition CeilDiv :: "int \<Rightarrow> int \<Rightarrow> fault + int" where
  "CeilDiv a b =
     (case int_sub a 1 of
        Inl e \<Rightarrow> Inl e
      | Inr x \<Rightarrow>
          (case int_div x b of
             Inl e \<Rightarrow> Inl e
           | Inr y \<Rightarrow> int_add y 1))"

text \<open>
  The loop that builds the task arguments in \<^verbatim>\<open>Compile\<close>:
  \<^verbatim>\<open>
  for (int taskIndex = 0; taskIndex < numTasks; ++taskIndex)
  {
      auto start = taskIndex * taskSize;
      auto end = std::min((taskIndex + 1) * taskSize, numOutputRows);
      taskArgs.push_back({ ..., Literal(start), Literal(end) });
  }
  \<close>
  \<open>task_ranges_from\<close> is the loop entered with the given \<open>taskIndex\<close>; it returns the
  \<open>(start, end)\<close> pairs pushed from there on.
\<close>

function task_ranges_from :: "int \<Rightarrow> int \<Rightarrow> int \<Rightarrow> int \<Rightarrow> fault + (int \<times> int) list" where
  "task_ranges_from taskIndex numTasks taskSize numRows =
     (if taskIndex < numTasks then
        (case int_mul taskIndex taskSize of
           Inl e \<Rightarrow> Inl e
         | Inr start \<Rightarrow>
             (case int_add taskIndex 1 of
                Inl e \<Rightarrow> Inl e
              | Inr next \<Rightarrow>
                  (case int_mul next taskSize of
                     Inl e \<Rightarrow> Inl e
                   | Inr m \<Rightarrow>
                       (case task_ranges_from next numTasks taskSize numRows of
                          Inl e \<Rightarrow> Inl e
                        | Inr rest \<Rightarrow> Inr ((start, min m numRows) # rest)))))
      else Inr [])"
  by pat_completeness auto
termination
  by (relation "measure (\<lambda>(taskIndex, numTasks, taskSize, numRows). nat (numTasks - taskIndex))")
     (auto simp: int_add_def to_int_def split: if_splits)

declare task_ranges_from.simps [simp del]

definition task_ranges :: "int \<Rightarrow> int \<Rightarrow> int \<Rightarrow> fault + (int \<times> int) list" where
  "task_ranges numTasks taskSize numRows = task_ranges_from 0 numTasks taskSize numRows"

text \<open>The specification's words: the ceiling of the exact quotient.\<close>

definition ceil_div_spec :: "int \<Rightarrow> int \<Rightarrow> int" where
  "ceil_div_spec n d = \<lceil>real_of_int n / real_of_int d\<rceil>"

text \<open>
  What it means for a list of half-open ranges \<open>[s, e)\<close> to tile \<open>[lo, hi)\<close>: every range
  is non-empty, the first starts at \<open>lo\<close>, each next one starts where the previous one
  ends, and the last ends at \<open>hi\<close>.
\<close>

fun tiles_from :: "int \<Rightarrow> int \<Rightarrow> (int \<times> int) list \<Rightarrow> bool" where
  "tiles_from lo hi [] = (lo = hi)"
| "tiles_from lo hi ((s, e) # rs) = (s = lo \<and> s < e \<and> tiles_from e hi rs)"

section \<open>Input ports (InputPort.cpp)\<close>

text \<open>
  Exceptions of the library: \<^verbatim>\<open>utilities::LogicException\<close> with its error code. Only the two
  codes thrown by the modelled functions are listed.
\<close>

datatype LogicExceptionErrors = illegalState | notImplemented

datatype exception = LogicException LogicExceptionErrors

text \<open>
  Ports are objects that point at each other. Pointers are references into a store:
  \<open>input_ref\<close> names an \<^verbatim>\<open>InputPortBase\<close> object, \<open>output_ref\<close> an \<^verbatim>\<open>OutputPortBase\<close> object.
  The field \<^verbatim>\<open>_referencedPort\<close> of an input port is a pointer that may be \<^verbatim>\<open>nullptr\<close>
  (\<open>None\<close>).
\<close>

type_synonym input_ref = nat
type_synonym output_ref = nat

record InputPortBase =
  referencedPort :: "output_ref option"

text \<open>
  Modelled from the spec: the class \<^verbatim>\<open>OutputPortBase\<close> (its declaration and its methods
  \<^verbatim>\<open>Size\<close>, \<^verbatim>\<open>AddReference\<close>, \<^verbatim>\<open>RemoveReference\<close>, \<^verbatim>\<open>HasReference\<close>) is missing from the sources.
  The specification says that an output port owns the size of its value and
  ``maintains the set of \<^verbatim>\<open>InputPort\<close>s that reference it'', that binding makes the set gain
  the input and that unbinding removes it.
\<close>

record OutputPortBase =
  portSize :: nat
  references :: "input_ref set"

record port_store =
  inputPorts :: "input_ref \<rightharpoonup> InputPortBase"
  outputPorts :: "output_ref \<Rightarrow> OutputPortBase"

definition AddReference :: "port_store \<Rightarrow> output_ref \<Rightarrow> input_ref \<Rightarrow> port_store" where
  "AddReference st port reference =
     st\<lparr>outputPorts := (outputPorts st)
          (port := (outputPorts st port)\<lparr>references := insert reference (references (outputPorts st port))\<rparr>)\<rparr>"

definition RemoveReference :: "port_store \<Rightarrow> output_ref \<Rightarrow> input_ref \<Rightarrow> port_store" where
  "RemoveReference st port reference =
     st\<lparr>outputPorts := (outputPorts st)
          (port := (outputPorts st port)\<lparr>references := references (outputPorts st port) - {reference}\<rparr>)\<rparr>"

definition HasReference :: "port_store \<Rightarrow> output_ref \<Rightarrow> input_ref \<Rightarrow> bool" where
  "HasReference st port reference = (reference \<in> references (outputPorts st port))"

text \<open>
  The methods of \<^verbatim>\<open>InputPortBase\<close>. The argument \<open>this\<close> is the object the method is called
  on; a method is only ever called on an object of the store, and on any other reference
  the model leaves the store as it is.
\<close>

definition set_referencedPort :: "port_store \<Rightarrow> input_ref \<Rightarrow> output_ref option \<Rightarrow> port_store" where
  "set_referencedPort st this v =
     (case inputPorts st this of
        None \<Rightarrow> st
      | Some p \<Rightarrow> st\<lparr>inputPorts := (inputPorts st)(this \<mapsto> p\<lparr>referencedPort := v\<rparr>)\<rparr>)"

definition get_referencedPort :: "port_store \<Rightarrow> input_ref \<Rightarrow> output_ref option" where
  "get_referencedPort st this =
     (case inputPorts st this of None \<Rightarrow> None | Some p \<Rightarrow> referencedPort p)"

text \<open>\<^verbatim>\<open>bool InputPortBase::IsValid() const { return _referencedPort != nullptr; }\<close>\<close>

definition IsValid :: "port_store \<Rightarrow> input_ref \<Rightarrow> bool" where
  "IsValid st this = (get_referencedPort st this \<noteq> None)"

text \<open>
  \<^verbatim>\<open>
  const OutputPortBase& InputPortBase::GetReferencedPort() const
  {
      if (!IsValid())
          throw utilities::LogicException(utilities::LogicExceptionErrors::illegalState, ...);
      return *_referencedPort;
  }
  \<close>
\<close>

definition GetReferencedPort :: "port_store \<Rightarrow> input_ref \<Rightarrow> exception + output_ref" where
  "GetReferencedPort st this =
     (if \<not> IsValid st this then Inl (LogicException illegalState)
      else (case get_referencedPort st this of
              None \<Rightarrow> Inl (LogicException illegalState)
            | Some port \<Rightarrow> Inr port))"

text \<open>
  \<^verbatim>\<open>
  PortElementBase InputPortBase::GetInputElement(size_t index) const
  {
      if (!IsValid())
          throw utilities::LogicException(utilities::LogicExceptionErrors::illegalState, ...);
      PortElementsBase elements(GetReferencedPort());
      return elements.GetElement(index);
  }
  \<close>
  The class \<^verbatim>\<open>PortElementsBase\<close> is not among the sources: what \<^verbatim>\<open>GetElement\<close> returns for the
  elements of a port, or raises, is the parameter \<open>getElement\<close>.
\<close>

definition GetInputElement ::
  "(output_ref \<Rightarrow> nat \<Rightarrow> exception + 'e) \<Rightarrow> port_store \<Rightarrow> input_ref \<Rightarrow> nat \<Rightarrow> exception + 'e" where
  "GetInputElement getElement st this index =
     (if \<not> IsValid st this then Inl (LogicException illegalState)
      else (case GetReferencedPort st this of
              Inl e \<Rightarrow> Inl e
            | Inr port \<Rightarrow> getElement port index))"

text \<open>
  \<^verbatim>\<open>
  size_t InputPortBase::Size() const
  {
      if (!IsValid())
          return 0;
      return GetReferencedPort().Size();
  }
  \<close>
\<close>

definition Size :: "port_store \<Rightarrow> input_ref \<Rightarrow> exception + nat" where
  "Size st this =
     (if \<not> IsValid st this then Inr 0
      else (case GetReferencedPort st this of
              Inl e \<Rightarrow> Inl e
            | Inr port \<Rightarrow> Inr (portSize (outputPorts st port))))"

text \<open>
  \<^verbatim>\<open>
  std::vector<const Node*> InputPortBase::GetParentNodes() const
  {
      return _referencedPort == nullptr ? std::vector<const Node*>()
                                        : std::vector<const Node*>{ _referencedPort->GetNode() };
  }
  \<close>
  The node that owns an output port, \<^verbatim>\<open>GetNode\<close>, is the parameter \<open>getNode\<close>.
\<close>

definition GetParentNodes :: "(output_ref \<Rightarrow> 'n) \<Rightarrow> port_store \<Rightarrow> input_ref \<Rightarrow> 'n list" where
  "GetParentNodes getNode st this =
     (case get_referencedPort st this of
        None \<Rightarrow> []
      | Some port \<Rightarrow> [getNode port])"

text \<open>
  \<^verbatim>\<open>
  PortMemoryLayout InputPortBase::GetMemoryLayout() const
  {
      return _referencedPort->GetMemoryLayout();
  }
  \<close>
  The pointer is dereferenced without a check: on an unbound port this is a null
  dereference, \<open>None\<close>. The layout of an output port is the parameter \<open>getLayout\<close>.
\<close>

definition GetMemoryLayout :: "(output_ref \<Rightarrow> 'l) \<Rightarrow> port_store \<Rightarrow> input_ref \<Rightarrow> 'l option" where
  "GetMemoryLayout getLayout st this =
     (case get_referencedPort st this of
        None \<Rightarrow> None
      | Some port \<Rightarrow> Some (getLayout port))"

text \<open>
  \<^verbatim>\<open>
  void InputPortBase::SetReferencedPort(const OutputPortBase* input)
  {
      if (_referencedPort)
          _referencedPort->RemoveReference(this);
      if (input)
          input->AddReference(this);
      _referencedPort = input;
  }
  \<close>
\<close>

definition SetReferencedPort :: "port_store \<Rightarrow> input_ref \<Rightarrow> output_ref option \<Rightarrow> port_store" where
  "SetReferencedPort st this input =
     (let st1 = (case get_referencedPort st this of
                   Some old \<Rightarrow> RemoveReference st old this
                 | None \<Rightarrow> st);
          st2 = (case input of
                   Some new \<Rightarrow> AddReference st1 new this
                 | None \<Rightarrow> st1)
      in set_referencedPort st2 this input)"

text \<open>\<^verbatim>\<open>void InputPortBase::ClearReferencedPort() { _referencedPort = nullptr; }\<close>\<close>

definition ClearReferencedPort :: "port_store \<Rightarrow> input_ref \<Rightarrow> port_store" where
  "ClearReferencedPort st this = set_referencedPort st this None"

text \<open>
  The destructor: \<^verbatim>\<open>if (_referencedPort) _referencedPort->RemoveReference(this);\<close>, after
  which the object is gone from the store.
\<close>

definition destroy_InputPortBase :: "port_store \<Rightarrow> input_ref \<Rightarrow> port_store" where
  "destroy_InputPortBase st this =
     (let st1 = (case get_referencedPort st this of
                   Some old \<Rightarrow> RemoveReference st old this
                 | None \<Rightarrow> st)
      in st1\<lparr>inputPorts := (inputPorts st1)(this := None)\<rparr>)"

text \<open>
  The invariant of the specification: an input port references an output port if and
  only if it is in that output port's reference set.
\<close>

definition ports_consistent :: "port_store \<Rightarrow> bool" where
  "ports_consistent st =
     (\<forall>i port. (get_referencedPort st i = Some port) = (i \<in> references (outputPorts st port)))"

text \<open>A store with one input port (number 0) bound to output port 0, of size 5.\<close>

definition example_ports :: port_store where
  "example_ports =
     \<lparr>inputPorts = [0 \<mapsto> \<lparr>referencedPort = Some 0\<rparr>],
      outputPorts = (\<lambda>port. if port = 0 then \<lparr>portSize = 5, references = {0}\<rparr>
                             else \<lparr>portSize = 0, references = {}\<rparr>)\<rparr>"

text \<open>
  \<^verbatim>\<open>
  void InputPortBase::UpdateReferencedPort()
  {
      if (!_referencedPort->HasReference(this))
          _referencedPort->AddReference(this);
  }
  \<close>
  The pointer is dereferenced without a check: on an unbound port this is a null
  dereference, \<open>None\<close>.
\<close>

definition UpdateReferencedPort :: "port_store \<Rightarrow> input_ref \<Rightarrow> port_store option" where
  "UpdateReferencedPort st this =
     (case get_referencedPort st this of
        None \<Rightarrow> None
      | Some port \<Rightarrow>
          Some (if \<not> HasReference st port this then AddReference st port this else st))"

text \<open>A store with one input port (number 0) that is not bound.\<close>

definition example_unbound :: port_store where
  "example_unbound =
     \<lparr>inputPorts = [0 \<mapsto> \<lparr>referencedPort = None\<rparr>],
      outputPorts = (\<lambda>port. \<lparr>portSize = 7, references = {}\<rparr>)\<rparr>"

section \<open>Header writer (IRHeaderWriter.cpp)\<close>

text \<open>
  The part of LLVM that the header writer reads: a type is a struct (with or without a
  name), an array, a pointer, an integer of some width, \<^verbatim>\<open>float\<close>, \<^verbatim>\<open>double\<close>, \<^verbatim>\<open>void\<close>, a
  function type or anything else; a function has (or has not) a name, a return type and
  arguments. The writer appends to an output stream: each function returns the text it
  appends.
\<close>

datatype llvm_type =
    StructTy bool string
  | ArrayTy nat llvm_type
  | PointerTy llvm_type
  | IntegerTy nat
  | FloatTy
  | DoubleTy
  | VoidTy
  | FunctionTy llvm_type "llvm_type list"
  | OtherTy

record StructType =
  type_hasName :: bool
  type_getName :: string
  elements :: "llvm_type list"

record Function =
  hasName :: bool
  getName :: string
  getReturnType :: llvm_type
  args :: "llvm_type list"

record IRModuleEmitter =
  moduleName :: string
  preprocessorDefinitions :: "(string \<times> string) list"
  identifiedStructTypes :: "StructType list"
  moduleFunctions :: "Function list"
  functionComments :: "string \<rightharpoonup> string list"

definition newline :: string where
  "newline = [CHR 0x0A]"

definition dquote :: string where
  "dquote = [CHR 0x22]"

text \<open>Decimal text of an unsigned number, as \<^verbatim>\<open>os << size\<close> writes it.\<close>

fun to_string :: "nat \<Rightarrow> string" where
  "to_string n =
     (if n < 10 then [char_of (48 + n)]
      else to_string (n div 10) @ [char_of (48 + n mod 10)])"

declare to_string.simps [simp del]

text \<open>
  \<^verbatim>\<open>std::string::find\<close>: the position of the first occurrence of the pattern, \<open>None\<close> for
  \<^verbatim>\<open>npos\<close>.
\<close>

fun find_str :: "string \<Rightarrow> string \<Rightarrow> nat option" where
  "find_str [] pat = (if pat = [] then Some 0 else None)"
| "find_str (c # cs) pat =
     (if prefix pat (c # cs) then Some 0 else map_option Suc (find_str cs pat))"

definition ShouldWriteType :: "StructType \<Rightarrow> bool" where
  "ShouldWriteType t =
     (if type_hasName t then
        (let typeName = type_getName t in
         if typeName = ''timespec'' then False
         else if find_str typeName ''struct.'' = Some 0 \<or> find_str typeName ''class.'' = Some 0
           then False
         else True)
      else True)"

definition ShouldWriteFunction :: "Function \<Rightarrow> bool" where
  "ShouldWriteFunction f =
     (if \<not> hasName f then False
      else
        (let functionName = getName f in
         if find_str functionName ''_Node__'' = Some 0 then False
         else if find_str functionName ''llvm.'' = Some 0 then False
         else if find_str functionName ''clock_gettime'' = Some 0 then False
         else if find_str functionName ''cblas'' = Some 0 then False
         else if find_str functionName ''printf'' = Some 0 then False
         else if find_str functionName ''_'' = Some 0 then False
         else True))"

text \<open>
  The loops that write a list of types separated by commas:
  \<^verbatim>\<open>if (!first) os << ", "; first = false; WriteLLVMType(os, pt);\<close>
\<close>

fun write_separated :: "bool \<Rightarrow> string list \<Rightarrow> string" where
  "write_separated first [] = []"
| "write_separated first (t # ts) =
     (if \<not> first then '', '' else []) @ t @ write_separated False ts"

fun WriteLLVMType :: "llvm_type \<Rightarrow> string" where
  "WriteLLVMType (StructTy named typeName) = (if named then ''struct '' @ typeName else [])"
| "WriteLLVMType (ArrayTy numElements elemType) =
     WriteLLVMType elemType @ ''['' @ to_string numElements @ '']''"
| "WriteLLVMType (PointerTy elemType) = WriteLLVMType elemType @ ''*''"
| "WriteLLVMType (IntegerTy bitWidth) = ''int'' @ to_string bitWidth @ ''_t''"
| "WriteLLVMType FloatTy = ''float''"
| "WriteLLVMType DoubleTy = ''double''"
| "WriteLLVMType VoidTy = ''void''"
| "WriteLLVMType (FunctionTy returnType params) =
     WriteLLVMType returnType @ '' ('' @ write_separated True (map WriteLLVMType params) @ '');''"
| "WriteLLVMType OtherTy = ''['' @ ''[UNKNOWN]'' @ '']''"

definition WriteLLVMVarDecl :: "llvm_type \<Rightarrow> string \<Rightarrow> string" where
  "WriteLLVMVarDecl t name =
     (case t of
        ArrayTy numElements elemType \<Rightarrow>
          WriteLLVMType elemType @ '' '' @ name @ ''['' @ to_string numElements @ '']''
      | _ \<Rightarrow> WriteLLVMType t @ '' '' @ name)"

fun write_fields :: "nat \<Rightarrow> llvm_type list \<Rightarrow> string" where
  "write_fields index [] = []"
| "write_fields index (fieldType # rest) =
     ''    '' @ WriteLLVMVarDecl fieldType (''param'' @ to_string index) @ '';'' @ newline
     @ write_fields (index + 1) rest"

definition WriteStructDefinition :: "StructType \<Rightarrow> string" where
  "WriteStructDefinition t =
     (if type_hasName t then
        ''struct '' @ type_getName t @ newline @ ''{'' @ newline
        @ write_fields 0 (elements t) @ ''};''
      else [])"

definition WriteFunction :: "IRModuleEmitter \<Rightarrow> Function \<Rightarrow> string" where
  "WriteFunction moduleEmitter f =
     (if hasName f then
        (let name = getName f in
         (case functionComments moduleEmitter name of
            Some comments \<Rightarrow> concat (map (\<lambda>comment. ''// '' @ comment @ newline) comments)
          | None \<Rightarrow> [])
         @ WriteLLVMType (getReturnType f) @ '' '' @ name @ ''(''
         @ write_separated True (map WriteLLVMType (args f)) @ '');'')
      else [])"

text \<open>
  \<^verbatim>\<open>WriteModuleHeader\<close> in four parts, in the order the source writes them: the header
  comment with the preprocessor definitions, the type definitions, the function
  signatures, and the closing lines.
\<close>

definition header_comment :: "IRModuleEmitter \<Rightarrow> string" where
  "header_comment moduleEmitter =
     ''//'' @ newline @ ''// ELL header for module '' @ moduleName moduleEmitter @ newline
     @ ''//'' @ newline @ newline
     @ ''#include <stdint.h>'' @ newline @ newline
     @ ''#ifdef __cplusplus'' @ newline
     @ ''extern '' @ dquote @ ''C'' @ dquote @ ''{'' @ newline
     @ ''#endif'' @ newline
     @ (let defines = preprocessorDefinitions moduleEmitter in
        if length defines > 0 then
          concat (map (\<lambda>def. ''#define '' @ fst def @ '' '' @ snd def @ newline) defines) @ newline
        else [])"

definition header_types :: "IRModuleEmitter \<Rightarrow> string" where
  "header_types moduleEmitter =
     ''//'' @ newline @ ''// Types'' @ newline @ ''//'' @ newline @ newline
     @ concat (map (\<lambda>t. if ShouldWriteType t then WriteStructDefinition t @ newline @ newline
                         else [])
                (identifiedStructTypes moduleEmitter))"

definition functions_title :: string where
  "functions_title =
     newline @ ''//'' @ newline @ ''// Functions'' @ newline @ ''//'' @ newline @ newline"

definition header_functions :: "IRModuleEmitter \<Rightarrow> string" where
  "header_functions moduleEmitter =
     functions_title
     @ concat (map (\<lambda>f. if ShouldWriteFunction f
                         then WriteFunction moduleEmitter f @ newline @ newline
                         else [])
                (moduleFunctions moduleEmitter))"

definition header_end :: string where
  "header_end =
     ''#ifdef __cplusplus'' @ newline
     @ ''} // extern '' @ dquote @ ''C'' @ dquote @ newline
     @ ''#endif'' @ newline"

definition WriteModuleHeader :: "IRModuleEmitter \<Rightarrow> string" where
  "WriteModuleHeader moduleEmitter =
     header_comment moduleEmitter @ header_types moduleEmitter
     @ header_functions moduleEmitter @ header_end"

text \<open>The prefixes the claim lists.\<close>

definition excluded_prefixes :: "string list" where
  "excluded_prefixes = [''_Node__'', ''llvm.'', ''clock_gettime'', ''cblas'', ''printf'', ''_'']"

text \<open>A module with five functions, one of them without a name.\<close>

definition example_function :: "bool \<Rightarrow> string \<Rightarrow> Function" where
  "example_function named name =
     \<lparr>hasName = named, getName = name, getReturnType = VoidTy,
      args = [PointerTy DoubleTy, IntegerTy 32]\<rparr>"

definition example_module :: IRModuleEmitter where
  "example_module =
     \<lparr>moduleName = ''m'', preprocessorDefinitions = [], identifiedStructTypes = [],
      moduleFunctions = [example_function True ''predict'', example_function True ''_Node__7'',
                   example_function True ''llvm.ctpop.i64'', example_function False [],
                   example_function True ''printf'', example_function True ''reset''],
      functionComments = Map.empty\<rparr>"

section \<open>Emitted code and its run-time state\<close>

text \<open>
  \<^verbatim>\<open>Compile\<close> emits code through an \<^verbatim>\<open>IRFunctionEmitter\<close>. The model of a function that
  emits code takes its C++ arguments, does the arithmetic the compiler itself does (which
  may fault), and returns the meaning of the code it emitted: a transformer of the
  run-time memory, as a function of the run-time values of its \<^verbatim>\<open>LLVMValue\<close> arguments.

  The run-time memory holds the buffers of the ports and the variables allocated on the
  stack (\<^verbatim>\<open>function.Variable\<close>). A pointer is a region and an element offset. Every
  invocation of a function has a frame of its own: frame 0 is the function the node is
  compiled into, frame \<open>k + 1\<close> is the invocation of the task function by the \<open>k\<close>-th
  started task. Cells are typed as in LLVM: \<^verbatim>\<open>ValueType\<close> cells, \<^verbatim>\<open>PackedBitsType\<close> cells,
  vectors of \<^verbatim>\<open>PackedBitsType\<close>, and \<^verbatim>\<open>int\<close> cells. The flag \<open>trapped\<close> records that the emitted
  code has executed an integer division whose behaviour is undefined.
\<close>

datatype region = PortBuffer string | FrameVariable nat string

type_synonym pointer = "region \<times> int"

record (overloaded) ('v, 'w) memory =
  realCells :: "pointer \<Rightarrow> 'v"
  packedCells :: "pointer \<Rightarrow> 'w word"
  vectorCells :: "pointer \<Rightarrow> 'w word list"
  intCells :: "pointer \<Rightarrow> int"
  trapped :: bool

definition PointerOffset :: "pointer \<Rightarrow> int \<Rightarrow> pointer" where
  "PointerOffset p offset = (fst p, snd p + offset)"

text \<open>\<^verbatim>\<open>compiler.EnsurePortEmitted(port)\<close>: the buffer of a port of the node.\<close>

definition EnsurePortEmitted :: "string \<Rightarrow> pointer" where
  "EnsurePortEmitted portName = (PortBuffer portName, 0)"

text \<open>\<^verbatim>\<open>function.Variable(type, ...)\<close> in the function with the given frame.\<close>

definition Variable :: "nat \<Rightarrow> string \<Rightarrow> pointer" where
  "Variable frame name = (FrameVariable frame name, 0)"

text \<open>
  Run-time scalars of type \<^verbatim>\<open>int\<close> are 32-bit LLVM integers: \<^verbatim>\<open>add\<close>, \<^verbatim>\<open>sub\<close> and \<^verbatim>\<open>mul\<close>
  wrap around, \<^verbatim>\<open>sdiv\<close> and \<^verbatim>\<open>srem\<close> truncate towards zero and are undefined for a zero
  divisor and for \<open>INT_MIN / -1\<close>.
\<close>

definition i32 :: "int \<Rightarrow> int" where
  "i32 x = signed_take_bit 31 x"

definition rt_add :: "int \<Rightarrow> int \<Rightarrow> int" where
  "rt_add a b = i32 (a + b)"

definition rt_sub :: "int \<Rightarrow> int \<Rightarrow> int" where
  "rt_sub a b = i32 (a - b)"

definition rt_mul :: "int \<Rightarrow> int \<Rightarrow> int" where
  "rt_mul a b = i32 (a * b)"

definition rt_sdiv :: "int \<Rightarrow> int \<Rightarrow> int" where
  "rt_sdiv a b = i32 (a sdiv b)"

definition rt_srem :: "int \<Rightarrow> int \<Rightarrow> int" where
  "rt_srem a b = i32 (a smod b)"

definition division_undefined :: "int \<Rightarrow> int \<Rightarrow> bool" where
  "division_undefined a b = (b = 0 \<or> (a = INT_MIN \<and> b = - 1))"

text \<open>
  \<^verbatim>\<open>function.For(begin, end, body)\<close> emits a loop whose index runs from \<open>begin\<close> while it is
  below \<open>end\<close>; \<^verbatim>\<open>function.For(count, body)\<close> is the loop from 0.
\<close>

definition for_loop :: "int \<Rightarrow> int \<Rightarrow> (int \<Rightarrow> 'm \<Rightarrow> 'm) \<Rightarrow> 'm \<Rightarrow> 'm" where
  "for_loop lo hi body = fold body [lo..hi - 1]"

text \<open>
  \<^verbatim>\<open>size_t\<close> is 64 bits wide and its arithmetic wraps around; only division by zero is
  undefined. The conversion of an \<^verbatim>\<open>int\<close> to \<^verbatim>\<open>size_t\<close> and back is modular.
\<close>

definition SIZE_MOD :: nat where
  "SIZE_MOD = 2 ^ 64"

definition size_t_of_int :: "int \<Rightarrow> nat" where
  "size_t_of_int x = nat (x mod int SIZE_MOD)"

definition int_of_size_t :: "nat \<Rightarrow> int" where
  "int_of_size_t n = i32 (int n)"

definition size_mul :: "nat \<Rightarrow> nat \<Rightarrow> nat" where
  "size_mul a b = (a * b) mod SIZE_MOD"

definition size_add :: "nat \<Rightarrow> nat \<Rightarrow> nat" where
  "size_add a b = (a + b) mod SIZE_MOD"

definition size_sub :: "nat \<Rightarrow> nat \<Rightarrow> nat" where
  "size_sub a b = nat ((int a - int b) mod int SIZE_MOD)"

definition size_div :: "nat \<Rightarrow> nat \<Rightarrow> fault + nat" where
  "size_div a b = (if b = 0 then Inl DivisionByZero else Inr (a div b))"

definition bind_fault :: "fault + 'a \<Rightarrow> ('a \<Rightarrow> fault + 'b) \<Rightarrow> fault + 'b" where
  "bind_fault m f = (case m of Inl e \<Rightarrow> Inl e | Inr x \<Rightarrow> f x)"

text \<open>The C++ remainder of two \<^verbatim>\<open>int\<close>s.\<close>

definition int_rem :: "int \<Rightarrow> int \<Rightarrow> fault + int" where
  "int_rem a b =
     (if b = 0 then Inl DivisionByZero
      else if a = INT_MIN \<and> b = - 1 then Inl SignedOverflow
      else Inr (a smod b))"

text \<open>
  What a compiled node emits into the function: either the start of a list of tasks,
  each a call of a task function with its arguments, followed by the wait for all of
  them; or one loop from 0 up to a count. A task function has a name and consists of the
  loop \<^verbatim>\<open>For(begin, end, body)\<close> over its last two arguments; its body is given as a function
  of the frame of the invocation, of the pointer arguments and of the loop index.
\<close>

datatype 'm task_function = TaskFunction string "nat \<Rightarrow> pointer list \<Rightarrow> int \<Rightarrow> 'm \<Rightarrow> 'm"

datatype 'm emitted =
    StartTasks_WaitAll "'m task_function" "(pointer list \<times> int \<times> int) list"
  | For_count int "int \<Rightarrow> 'm \<Rightarrow> 'm"

fun task_body :: "'m task_function \<Rightarrow> nat \<Rightarrow> pointer list \<Rightarrow> int \<Rightarrow> 'm \<Rightarrow> 'm" where
  "task_body (TaskFunction name body) = body"

text \<open>
  Running the emitted code. The started tasks run on a thread pool and the function
  waits for all of them. Task number \<open>k\<close> runs in a frame of its own, \<open>Suc k\<close> (frame 0 is
  the frame of the emitting function), and executes
  \<^verbatim>\<open>for (i = begin; i < end; ++i) body(i)\<close> on its arguments. In the model the tasks are
  interleaved at the iterations of these loops: a schedule is a list of task numbers, and
  each entry lets that task execute the next iteration of its loop; \<open>next k\<close> is the loop
  counter of task \<open>k\<close>. An entry for a task that has finished, or that does not exist,
  does nothing.
\<close>

fun run_tasks ::
  "'m task_function \<Rightarrow> (pointer list \<times> int \<times> int) list \<Rightarrow> (nat \<Rightarrow> int) \<Rightarrow> nat list \<Rightarrow> 'm \<Rightarrow> 'm" where
  "run_tasks f taskArgs next [] m = m"
| "run_tasks f taskArgs next (k # schedule) m =
     (if k < length taskArgs \<and> next k < snd (snd (taskArgs ! k))
      then run_tasks f taskArgs (next(k := next k + 1)) schedule
             (task_body f (Suc k) (fst (taskArgs ! k)) (next k) m)
      else run_tasks f taskArgs next schedule m)"

fun run :: "nat list \<Rightarrow> 'm emitted \<Rightarrow> 'm \<Rightarrow> 'm" where
  "run schedule (StartTasks_WaitAll f taskArgs) =
     run_tasks f taskArgs (\<lambda>k. fst (snd (taskArgs ! k))) schedule"
| "run schedule (For_count n body) = for_loop 0 n body"

text \<open>
  \<^verbatim>\<open>WaitAll\<close> returns when every task has finished: a schedule gives every task as many
  entries as its loop has iterations.
\<close>

definition is_schedule :: "nat list \<Rightarrow> 'm emitted \<Rightarrow> bool" where
  "is_schedule schedule e =
     (case e of
        StartTasks_WaitAll f taskArgs \<Rightarrow>
          list_all (\<lambda>k. count_list schedule k =
                          nat (snd (snd (taskArgs ! k)) - fst (snd (taskArgs ! k))))
            [0..<length taskArgs]
      | For_count n body \<Rightarrow> True)"

definition assert :: "bool \<Rightarrow> fault + unit" where
  "assert b = (if b then Inr () else Inl AssertionFailed)"

section \<open>The nodes of BinaryConvolutionalLayerNode.cpp\<close>

text \<open>
  Modelled from the spec: the declarations of \<^verbatim>\<open>PortMemoryLayout\<close>, of the convolutional
  parameters, of the compiler options and of the node classes are not among the sources.
  A memory layout has an extent, an active size and an offset in every dimension; the
  layouts of these nodes have the three dimensions row, column and channel. The compiler
  options are those the specification lists. A node holds its identifier, its
  convolutional parameters and the memory layouts of its input and output; the flag
  \<open>hasZeroPadding\<close> of a \<^verbatim>\<open>BinaryXnorNode\<close> stands for
  \<^verbatim>\<open>HasPadding(_inputPaddingParameters, PaddingScheme::zeros)\<close>.
\<close>

type_synonym MemoryShape = "nat \<Rightarrow> int"

record PortMemoryLayout =
  GetExtent :: MemoryShape
  GetActiveSize :: MemoryShape
  GetOffset :: MemoryShape

definition ToVector :: "MemoryShape \<Rightarrow> int list" where
  "ToVector shape = [shape 0, shape 1, shape 2]"

datatype BinaryWeightsScale = none | mean

record BinaryConvolutionalParameters =
  receptiveField :: nat
  stride :: nat
  weightsScale :: BinaryWeightsScale

record CompilerOptions =
  maxThreads :: int
  parallelize :: bool
  allowVectorInstructions :: bool
  vectorWidth :: int

record CompilableNode =
  GetId :: string
  convolutionalParameters :: BinaryConvolutionalParameters
  GetInputMemoryLayout :: PortMemoryLayout
  GetOutputMemoryLayout :: PortMemoryLayout

type_synonym BinaryReceptiveFieldMatrixNode = CompilableNode

record BinaryXnorNode = CompilableNode +
  hasZeroPadding :: bool

text \<open>
  \<^verbatim>\<open>ValueType\<close> is \<^verbatim>\<open>float\<close> or \<^verbatim>\<open>double\<close>. The model leaves the type open and takes the
  operations the emitted code applies to it as a parameter: the comparison with zero,
  the conversion from \<^verbatim>\<open>int\<close>, subtraction and multiplication.
\<close>

record 'v arithmetic =
  greater_zero :: "'v \<Rightarrow> bool"
  of_int32 :: "int \<Rightarrow> 'v"
  subtract :: "'v \<Rightarrow> 'v \<Rightarrow> 'v"
  multiply :: "'v \<Rightarrow> 'v \<Rightarrow> 'v"

text \<open>
  The element of a row-major tensor with the given dimensions at the given index
  (\<^verbatim>\<open>function.LocalTensor(pointer, dimensions, RowMajorTensorLayout)\<close>), computed by the
  emitted code.
\<close>

definition tensor_offset :: "int list \<Rightarrow> int list \<Rightarrow> int" where
  "tensor_offset dims index = foldl (\<lambda>acc (d, i). rt_add (rt_mul acc d) i) 0 (zip dims index)"

text \<open>
  \<^verbatim>\<open>
  template <typename ValueType>
  void LoadRow(function, inputVolume, inputLayout, outputRowIndex, outputLayout, convParams,
               realValueRow)
  {
      const int numChannels = inputLayout.GetActiveSize(2);
      const int outputImageWidth = outputLayout.GetActiveSize(1);
      const int filterSize = static_cast<int>(convParams.receptiveField);
      const int stride = static_cast<int>(convParams.stride);
      auto outputImageRow = function.LocalScalar(outputRowIndex) / outputImageWidth;
      auto outputImageCol = function.LocalScalar(outputRowIndex) % outputImageWidth;
      auto inputRowStart = outputImageRow * stride;
      auto inputColStart = outputImageCol * stride;
      auto input = function.LocalTensor(inputVolume, inputLayout.GetExtent().ToVector(), ...);
      auto output = function.LocalTensor(realValueRow, { filterSize, filterSize, numChannels }, ...);
      function.For(filterSize, [...](..., i) {
          function.For(filterSize, [=](..., j) {
              function.For(numChannels, [=](..., k) {
                  output({ rowIndex, columnIndex, channelIndex }) =
                      input({ inputRowStart + rowIndex, inputColStart + columnIndex, channelIndex });
      }); }); });
  }
  \<close>
\<close>

definition LoadRow ::
  "pointer \<Rightarrow> PortMemoryLayout \<Rightarrow> int \<Rightarrow> PortMemoryLayout \<Rightarrow> BinaryConvolutionalParameters \<Rightarrow>
   pointer \<Rightarrow> ('v, 'w::len) memory \<Rightarrow> ('v, 'w) memory" where
  "LoadRow inputVolume inputLayout outputRowIndex outputLayout convParams realValueRow m =
     (let numChannels = GetActiveSize inputLayout 2;
          outputImageWidth = GetActiveSize outputLayout 1;
          filterSize = int_of_size_t (receptiveField convParams);
          strideInt = int_of_size_t (stride convParams);
          outputImageRow = rt_sdiv outputRowIndex outputImageWidth;
          outputImageCol = rt_srem outputRowIndex outputImageWidth;
          inputRowStart = rt_mul outputImageRow strideInt;
          inputColStart = rt_mul outputImageCol strideInt;
          inputDims = ToVector (GetExtent inputLayout);
          outputDims = [filterSize, filterSize, numChannels];
          m0 = m\<lparr>trapped := trapped m \<or> division_undefined outputRowIndex outputImageWidth\<rparr>
      in for_loop 0 filterSize (\<lambda>rowIndex.
           for_loop 0 filterSize (\<lambda>columnIndex.
             for_loop 0 numChannels (\<lambda>channelIndex m'.
               m'\<lparr>realCells := (realCells m')
                    (PointerOffset realValueRow
                       (tensor_offset outputDims [rowIndex, columnIndex, channelIndex]) :=
                     realCells m'
                       (PointerOffset inputVolume
                          (tensor_offset inputDims
                             [rt_add inputRowStart rowIndex, rt_add inputColStart columnIndex,
                              channelIndex])))\<rparr>))) m0)"

text \<open>
  The value of one block of packed bits: bit \<open>bitIndex\<close> is set if and only if the real
  value at \<open>index bitIndex\<close> of the row is greater than zero;
  \<^verbatim>\<open>blockValue = blockValue | (bitValue << bitIndex)\<close> for \<open>bitIndex\<close> from 0 up to \<open>bitCount\<close>.
\<close>

definition pack_bits ::
  "('v \<Rightarrow> bool) \<Rightarrow> ('v, 'w::len) memory \<Rightarrow> pointer \<Rightarrow> (int \<Rightarrow> int) \<Rightarrow> int \<Rightarrow> 'w word" where
  "pack_bits isPositive m realRow index bitCount =
     fold (\<lambda>bitIndex blockValue.
             blockValue OR
             push_bit (nat bitIndex)
               (if isPositive (realCells m (PointerOffset realRow (index bitIndex))) then 1 else 0))
          [0..bitCount - 1] 0"

text \<open>
  \<^verbatim>\<open>
  template <typename ValueType, typename PackedBitsType>
  void CompressRow(function, realRow, packedOutput, int numValues)
  {
      int storedElementSize = sizeof(PackedBitsType);
      int storedElementNumBits = 8 * storedElementSize;
      int numBlocks = (numValues - 1) / storedElementNumBits + 1;
      int numCompleteBlocks = numValues / storedElementNumBits;
      function.For(numCompleteBlocks, [...](..., i) {
          auto blockValue = function.LocalScalar<PackedBitsType>(0);
          for (int bitIndex = 0; bitIndex < storedElementNumBits; ++bitIndex) {
              auto realValue = input[(blockIndex * storedElementNumBits) + bitIndex];
              auto cmp = realValue > static_cast<ValueType>(0);
              auto bitValue = ...Select(cmp, 1, 0);
              blockValue = blockValue | (bitValue << ...(bitIndex));
          }
          output[blockIndex] = blockValue;
      });
      if (numBlocks > numCompleteBlocks) {
          assert(numBlocks == numCompleteBlocks + 1);
          int leftoverBits = numValues % storedElementNumBits;
          ... the same for bitIndex < leftoverBits, reading
              input[numCompleteBlocks * storedElementNumBits + bitIndex] ...
          function.SetValueAt(packedOutput, numCompleteBlocks, blockValue);
      }
  }
  \<close>
  The arithmetic on \<open>numValues\<close> is the compiler's; the result is the emitted code as a
  function of the run-time pointers \<open>realRow\<close> and \<open>packedOutput\<close>.
\<close>

definition CompressRow ::
  "('v \<Rightarrow> bool) \<Rightarrow> int \<Rightarrow>
   fault + (pointer \<Rightarrow> pointer \<Rightarrow> ('v, 'w::len) memory \<Rightarrow> ('v, 'w) memory)" where
  "CompressRow isPositive numValues =
     (let storedElementSize = int (LENGTH('w) div 8);
          storedElementNumBits = 8 * storedElementSize
      in bind_fault (int_sub numValues 1) (\<lambda>numValuesMinus1.
         bind_fault (int_div numValuesMinus1 storedElementNumBits) (\<lambda>quotient.
         bind_fault (int_add quotient 1) (\<lambda>numBlocks.
         bind_fault (int_div numValues storedElementNumBits) (\<lambda>numCompleteBlocks.
         bind_fault (if numBlocks > numCompleteBlocks
                     then bind_fault (assert (numBlocks = numCompleteBlocks + 1))
                            (\<lambda>_. int_rem numValues storedElementNumBits)
                     else Inr 0) (\<lambda>leftoverBits.
         Inr (\<lambda>realRow packedOutput m.
           (let m1 = for_loop 0 numCompleteBlocks (\<lambda>blockIndex m'.
                       m'\<lparr>packedCells := (packedCells m')
                            (PointerOffset packedOutput blockIndex :=
                             pack_bits isPositive m' realRow
                               (\<lambda>bitIndex. rt_add (rt_mul blockIndex storedElementNumBits) bitIndex)
                               storedElementNumBits)\<rparr>) m
            in if numBlocks > numCompleteBlocks
               then m1\<lparr>packedCells := (packedCells m1)
                        (PointerOffset packedOutput numCompleteBlocks :=
                         pack_bits isPositive m1 realRow
                           (\<lambda>bitIndex. numCompleteBlocks * storedElementNumBits + bitIndex)
                           leftoverBits)\<rparr>
               else m1))))))))"

text \<open>
  The constants both \<^verbatim>\<open>GetTaskFunction\<close> and \<^verbatim>\<open>Compile\<close> of
  \<^verbatim>\<open>BinaryReceptiveFieldMatrixNode\<close> compute first:
  \<^verbatim>\<open>
  auto elementSize = sizeof(PackedBitsType);
  auto numBits = 8 * elementSize;
  const auto inputDepth = _inputMemoryLayout.GetActiveSize(2);
  const auto filterWidth = _convolutionalParameters.receptiveField;
  const auto fieldVolumeSize = filterWidth * filterWidth * inputDepth;
  ... packedRowSize = (fieldVolumeSize - 1) / numBits + 1;
  \<close>
  in \<^verbatim>\<open>size_t\<close> arithmetic.
\<close>

definition fieldVolumeSize_of :: "'a CompilableNode_scheme \<Rightarrow> nat" where
  "fieldVolumeSize_of node =
     (let inputDepth = GetActiveSize (GetInputMemoryLayout node) 2;
          filterWidth = receptiveField (convolutionalParameters node)
      in size_mul (size_mul filterWidth filterWidth) (size_t_of_int inputDepth))"

definition packedRowSize_of :: "nat \<Rightarrow> nat \<Rightarrow> fault + nat" where
  "packedRowSize_of fieldVolumeSize numBits =
     bind_fault (size_div (size_sub fieldVolumeSize 1) numBits) (\<lambda>q. Inr (size_add q 1))"

text \<open>
  \<^verbatim>\<open>BinaryReceptiveFieldMatrixNode::GetTaskFunction\<close>: the function
  \<^verbatim>\<open>
  void <id>_task(pInput, pOutput, begin, end)
  {
      realValueRow = alloca ValueType[fieldVolumeSize];
      for (i = begin; i < end; ++i) {
          LoadRow(pInput, GetInputMemoryLayout(), i, GetOutputMemoryLayout(),
                  _convolutionalParameters, realValueRow);
          outputRow = pOutput + i * packedRowSize;
          CompressRow(realValueRow, outputRow, fieldVolumeSize);
      }
  }
  \<close>
  with \<^verbatim>\<open>int packedRowSize = (fieldVolumeSize - 1) / numBits + 1; assert(packedRowSize != 0);\<close>.
\<close>

definition RFM_GetTaskFunction ::
  "'v arithmetic \<Rightarrow> BinaryReceptiveFieldMatrixNode \<Rightarrow>
   fault + ('v, 'w::len) memory task_function" where
  "RFM_GetTaskFunction ops node =
     (let elementSize = LENGTH('w) div 8;
          numBits = size_mul 8 elementSize;
          fieldVolumeSize = fieldVolumeSize_of node
      in bind_fault (packedRowSize_of fieldVolumeSize numBits) (\<lambda>packedRowSizeT.
         (let packedRowSize = int_of_size_t packedRowSizeT
          in bind_fault (assert (packedRowSize \<noteq> 0)) (\<lambda>_.
             bind_fault (CompressRow (greater_zero ops) (int_of_size_t fieldVolumeSize)) (\<lambda>compress.
             Inr (TaskFunction (GetId node @ ''_task'')
               (\<lambda>frame arguments i m.
                  (case arguments of
                     [pInput, pOutput] \<Rightarrow>
                       (let realValueRow = Variable frame ''realValueRow'';
                            outputRowIndex = i;
                            m1 = LoadRow pInput (GetInputMemoryLayout node) outputRowIndex
                                   (GetOutputMemoryLayout node) (convolutionalParameters node)
                                   realValueRow m;
                            outputRow = PointerOffset pOutput (rt_mul outputRowIndex packedRowSize)
                        in compress realValueRow outputRow m1)
                   | _ \<Rightarrow> m))))))))"

text \<open>
  \<^verbatim>\<open>BinaryReceptiveFieldMatrixNode::Compile\<close>:
  \<^verbatim>\<open>
  const auto packedRowSize = (fieldVolumeSize - 1) / numBits + 1;
  assert(packedRowSize != 0);
  const auto numOutputRows = outputImageWidth * outputImageHeight;
  const auto numDesiredTasks = compilerSettings.maxThreads;
  const int taskSize = CeilDiv(numOutputRows, numDesiredTasks);
  const int numTasks = CeilDiv(numOutputRows, taskSize);
  if (compilerSettings.parallelize && numTasks > 1) {
      auto taskFunction = GetTaskFunction(compiler, function);
      ... taskArgs.push_back({ pInput, pOutput, Literal(start), Literal(end) }) ...
      auto tasks = function.StartTasks(taskFunction, taskArgs);
      tasks.WaitAll(function);
  } else {
      realValueRow = function.Variable(..., fieldVolumeSize);
      function.For(numOutputRows, [...](..., i) {
          LoadRow(pInput, ..., outputRowIndex, ..., realValueRow);
          auto outputRow = function.PointerOffset(pOutput,
                               outputRowIndex * static_cast<int>(packedRowSize));
          CompressRow(realValueRow, outputRow, fieldVolumeSize);
      });
  }
  \<close>
\<close>

definition RFM_Compile ::
  "'v arithmetic \<Rightarrow> CompilerOptions \<Rightarrow> BinaryReceptiveFieldMatrixNode \<Rightarrow>
   fault + ('v, 'w::len) memory emitted" where
  "RFM_Compile ops compilerSettings node =
     (let pInput = EnsurePortEmitted ''input'';
          pOutput = EnsurePortEmitted ''output'';
          elementSize = LENGTH('w) div 8;
          numBits = size_mul 8 elementSize;
          fieldVolumeSize = fieldVolumeSize_of node
      in bind_fault (packedRowSize_of fieldVolumeSize numBits) (\<lambda>packedRowSize.
         bind_fault (assert (packedRowSize \<noteq> 0)) (\<lambda>_.
         (let outputImageHeight = GetActiveSize (GetOutputMemoryLayout node) 0;
              outputImageWidth = GetActiveSize (GetOutputMemoryLayout node) 1
          in bind_fault (int_mul outputImageWidth outputImageHeight) (\<lambda>numOutputRows.
             (let numDesiredTasks = maxThreads compilerSettings
              in bind_fault (CeilDiv numOutputRows numDesiredTasks) (\<lambda>taskSize.
                 bind_fault (CeilDiv numOutputRows taskSize) (\<lambda>numTasks.
                 if parallelize compilerSettings \<and> numTasks > 1 then
                   bind_fault (RFM_GetTaskFunction ops node) (\<lambda>taskFunction.
                   bind_fault (task_ranges numTasks taskSize numOutputRows) (\<lambda>ranges.
                   Inr (StartTasks_WaitAll taskFunction
                          (map (\<lambda>(taskStart, taskEnd). ([pInput, pOutput], taskStart, taskEnd))
                             ranges))))
                 else
                   bind_fault (CompressRow (greater_zero ops) (int_of_size_t fieldVolumeSize))
                     (\<lambda>compress.
                   Inr (For_count numOutputRows
                     (\<lambda>i m.
                        (let realValueRow = Variable 0 ''realValueRow'';
                             outputRowIndex = i;
                             m1 = LoadRow pInput (GetInputMemoryLayout node) outputRowIndex
                                    (GetOutputMemoryLayout node) (convolutionalParameters node)
                                    realValueRow m;
                             outputRow = PointerOffset pOutput
                                           (rt_mul outputRowIndex (int_of_size_t packedRowSize))
                         in compress realValueRow outputRow m1))))))))))))"

text \<open>
  The interpreted evaluation and the archive methods of both nodes:
  \<^verbatim>\<open>throw utilities::LogicException(utilities::LogicExceptionErrors::notImplemented);\<close>
\<close>

definition RFM_Compute :: "BinaryReceptiveFieldMatrixNode \<Rightarrow> exception + unit" where
  "RFM_Compute node = Inl (LogicException notImplemented)"

definition RFM_WriteToArchive :: "BinaryReceptiveFieldMatrixNode \<Rightarrow> 'archiver \<Rightarrow> exception + 'archiver" where
  "RFM_WriteToArchive node archiver = Inl (LogicException notImplemented)"

definition RFM_ReadFromArchive ::
  "BinaryReceptiveFieldMatrixNode \<Rightarrow> 'archiver \<Rightarrow> exception + BinaryReceptiveFieldMatrixNode" where
  "RFM_ReadFromArchive node archiver = Inl (LogicException notImplemented)"

definition Xnor_Compute :: "BinaryXnorNode \<Rightarrow> exception + unit" where
  "Xnor_Compute node = Inl (LogicException notImplemented)"

definition Xnor_WriteToArchive :: "BinaryXnorNode \<Rightarrow> 'archiver \<Rightarrow> exception + 'archiver" where
  "Xnor_WriteToArchive node archiver = Inl (LogicException notImplemented)"

definition Xnor_ReadFromArchive :: "BinaryXnorNode \<Rightarrow> 'archiver \<Rightarrow> exception + BinaryXnorNode" where
  "Xnor_ReadFromArchive node archiver = Inl (LogicException notImplemented)"

text \<open>
  The constants that \<^verbatim>\<open>BinaryXnorNode::Compile\<close> and \<^verbatim>\<open>BinaryXnorNode::GetTaskFunction\<close>
  both compute, by the same statements, before they emit anything:
  \<^verbatim>\<open>
  const auto storedElementSize = sizeof(PackedBitsType);
  const auto storedElementNumBits = 8 * storedElementSize;
  const auto numBits = storedElementNumBits;
  const auto elementSize = numBits / 8;
  assert(elementSize <= storedElementSize);
  const auto filterWidth = _convolutionalParameters.receptiveField;
  const auto numInputChannels = inputSize[2];
  const auto fieldVolumeSize = filterWidth * filterWidth * numInputChannels;
  const auto outputColumns = outputSize[0] * outputSize[1];
  const auto numStoredBlocksPerFilter = (fieldVolumeSize - 1) / storedElementNumBits + 1;
  const auto packedRowSize = numStoredBlocksPerFilter;
  assert(packedRowSize != 0);
  const int rowStrideBits = 64;
  const int rowStrideElementSize = rowStrideBits / 8;
  const auto numStrideBlocks = (fieldVolumeSize - 1) / rowStrideBits + 1;
  const int packedRowStride = numStrideBlocks * (rowStrideElementSize / elementSize);
  const bool hasZeroPadding = HasPadding(_inputPaddingParameters, PaddingScheme::zeros);
  bool useVectorInstructions = compilerSettings.allowVectorInstructions;
  const int vectorSize = compilerSettings.vectorWidth;
  const int numVectorBlocks = useVectorInstructions ? packedRowSize / vectorSize : 0;
  if (numVectorBlocks == 0) useVectorInstructions = false;
  \<close>
  All of it is \<^verbatim>\<open>size_t\<close> arithmetic except \<open>outputColumns\<close>, a product of two \<^verbatim>\<open>int\<close>s; the
  values passed on as \<^verbatim>\<open>int\<close> are converted.
\<close>

record Xnor_constants =
  c_outputColumns :: int
  c_packedRowSize :: nat
  c_packedRowStride :: int
  c_useVectorInstructions :: bool
  c_vectorSize :: int
  c_numVectorBlocks :: int

definition Xnor_setup ::
  "'w::len itself \<Rightarrow> CompilerOptions \<Rightarrow> BinaryXnorNode \<Rightarrow> fault + Xnor_constants" where
  "Xnor_setup packedBitsType compilerSettings node =
     (let inputSize = GetActiveSize (GetInputMemoryLayout node);
          outputSize = GetActiveSize (GetOutputMemoryLayout node);
          storedElementSize = LENGTH('w) div 8;
          storedElementNumBits = size_mul 8 storedElementSize;
          numBits = storedElementNumBits
      in bind_fault (size_div numBits 8) (\<lambda>elementSize.
         bind_fault (assert (elementSize \<le> storedElementSize)) (\<lambda>_.
         (let filterWidth = receptiveField (convolutionalParameters node);
              numInputChannels = inputSize 2;
              fieldVolumeSize = size_mul (size_mul filterWidth filterWidth)
                                  (size_t_of_int numInputChannels)
          in bind_fault (int_mul (outputSize 0) (outputSize 1)) (\<lambda>outputColumns.
             bind_fault (packedRowSize_of fieldVolumeSize storedElementNumBits) (\<lambda>packedRowSize.
             bind_fault (assert (packedRowSize \<noteq> 0)) (\<lambda>_.
             bind_fault (packedRowSize_of fieldVolumeSize 64) (\<lambda>numStrideBlocks.
             bind_fault (size_div 8 elementSize) (\<lambda>stridePerElement.
             (let packedRowStride = int_of_size_t (size_mul numStrideBlocks stridePerElement);
                  useVectorInstructions = allowVectorInstructions compilerSettings;
                  vectorSize = vectorWidth compilerSettings
              in bind_fault (if useVectorInstructions
                             then bind_fault (size_div packedRowSize (size_t_of_int vectorSize))
                                    (\<lambda>q. Inr (int_of_size_t q))
                             else Inr 0) (\<lambda>numVectorBlocks.
                 Inr \<lparr>c_outputColumns = outputColumns,
                      c_packedRowSize = packedRowSize,
                      c_packedRowStride = packedRowStride,
                      c_useVectorInstructions =
                        (if numVectorBlocks = 0 then False else useVectorInstructions),
                      c_vectorSize = vectorSize,
                      c_numVectorBlocks = numVectorBlocks\<rparr>)))))))))))"

text \<open>The number of set bits of a word (\<^verbatim>\<open>llvm.ctpop\<close>).\<close>

definition ctpop :: "'w::len word \<Rightarrow> 'w word" where
  "ctpop w = of_nat (length (filter (bit w) [0..<LENGTH('w)]))"

text \<open>
  A pointer cast to a pointer to vectors of \<open>vectorSize\<close> elements, indexed: the vector
  number \<open>blockIndex\<close>.
\<close>

definition load_vector :: "('v, 'w::len) memory \<Rightarrow> pointer \<Rightarrow> int \<Rightarrow> int \<Rightarrow> 'w word list" where
  "load_vector m p vectorSize blockIndex =
     map (\<lambda>lane. packedCells m (PointerOffset p (blockIndex * vectorSize + lane)))
       [0..vectorSize - 1]"

text \<open>
  \<^verbatim>\<open>
  void EmitInnerLoop(function, reshapedInputPtr, paddingMaskPtr, weightsPtr, xorSumVariable,
                     popCountFunction, int startBlock, int numBlocks, bool hasZeroPadding)
  {
      function.For(startBlock, startBlock + numBlocks, [...](..., i) {
          auto inputVal = reshapedInput[blockIndex];
          auto filterVal = weights[blockIndex];
          auto xorVal = inputVal ^ filterVal;
          if (hasZeroPadding) {
              auto paddingMaskVal = paddingMask[blockIndex];
              xorVal = paddingMaskVal & xorVal;
          }
          auto xorCount = function.Call(popCountFunction, { xorVal });
          function.OperationAndUpdate(xorSumVariable, plus, xorCount);
      });
  }
  \<close>
  It is called once with pointers to elements and a scalar sum, and once with pointers
  to vectors and a vector sum.
\<close>

definition EmitInnerLoop ::
  "int \<Rightarrow> int \<Rightarrow> bool \<Rightarrow>
   fault + (pointer \<Rightarrow> pointer \<Rightarrow> pointer \<Rightarrow> pointer \<Rightarrow> ('v, 'w::len) memory \<Rightarrow> ('v, 'w) memory)" where
  "EmitInnerLoop startBlock numBlocks zeroPadding =
     bind_fault (int_add startBlock numBlocks) (\<lambda>endBlock.
     Inr (\<lambda>reshapedInputPtr paddingMaskPtr weightsPtr xorSumVariable.
       for_loop startBlock endBlock (\<lambda>blockIndex m.
         (let inputVal = packedCells m (PointerOffset reshapedInputPtr blockIndex);
              filterVal = packedCells m (PointerOffset weightsPtr blockIndex);
              xorVal = inputVal XOR filterVal;
              xorVal' = (if zeroPadding
                         then packedCells m (PointerOffset paddingMaskPtr blockIndex) AND xorVal
                         else xorVal);
              xorCount = ctpop xorVal'
          in m\<lparr>packedCells := (packedCells m)
                 (xorSumVariable := packedCells m xorSumVariable + xorCount)\<rparr>))))"

definition EmitInnerLoop_vector ::
  "int \<Rightarrow> int \<Rightarrow> int \<Rightarrow> bool \<Rightarrow>
   fault + (pointer \<Rightarrow> pointer \<Rightarrow> pointer \<Rightarrow> pointer \<Rightarrow> ('v, 'w::len) memory \<Rightarrow> ('v, 'w) memory)" where
  "EmitInnerLoop_vector vectorSize startBlock numBlocks zeroPadding =
     bind_fault (int_add startBlock numBlocks) (\<lambda>endBlock.
     Inr (\<lambda>reshapedInputPtr paddingMaskPtr weightsPtr xorSumVariable.
       for_loop startBlock endBlock (\<lambda>blockIndex m.
         (let inputVal = load_vector m reshapedInputPtr vectorSize blockIndex;
              filterVal = load_vector m weightsPtr vectorSize blockIndex;
              xorVal = map2 (XOR) inputVal filterVal;
              xorVal' = (if zeroPadding
                         then map2 (AND) (load_vector m paddingMaskPtr vectorSize blockIndex) xorVal
                         else xorVal);
              xorCount = map ctpop xorVal'
          in m\<lparr>vectorCells := (vectorCells m)
                 (xorSumVariable := map2 (+) (vectorCells m xorSumVariable) xorCount)\<rparr>))))"

text \<open>
  \<^verbatim>\<open>BinaryXnorNode::ComputeFilterOutput\<close>, the code emitted for one filter. Its C++
  arguments are the constants above; the run-time arguments of the emitted code are the
  frame of the invocation it runs in (which holds the stack variables \<^verbatim>\<open>vecXorSum\<close> and
  \<^verbatim>\<open>xorSum\<close>), the six buffers and the index of the filter.
  \<^verbatim>\<open>
  const int numBits = 8 * sizeof(PackedBitsType);
  const int fieldVolumeSize = filterWidth * filterWidth * numInputChannels;
  const auto partialBlockSize = fieldVolumeSize % numBits;
  auto weightsBegin = filterIndex * packedRowStride;
  auto weightsBeginPtr = function.PointerOffset(pFilterWeights, weightsBegin);
  if (weightsScale == mean) filterMean = function.ValueAt(pFilterMeans, filterIndex);
  const int numScalarBlocks = packedRowSize - (vectorSize * numVectorBlocks);
  vectorSumVar = useVectorInstructions ? function.Variable(vectorType, "vecXorSum") : nullptr;
  sumVar = numScalarBlocks > 0 ? function.Variable(packedBitsType, "xorSum") : nullptr;
  function.For(outputColumns, [=](..., i) {
      auto inputBegin = outputColumnIndex * packedRowSize;
      auto paddingBegin = outputColumnIndex * packedRowStride;
      if (numVectorBlocks > 0) {
          assert(vectorSumVar != nullptr);
          function.Store(vectorSumVar, FillVector(0));
          EmitInnerLoop(inputVector, paddingMaskVector, weightsVector, vectorSumVar, ...,
                        0, numVectorBlocks, hasZeroPadding);
          vectorXorSum = HorizontalVectorSum(function.Load(vectorSumVar));
      }
      if (numScalarBlocks > 0) {
          assert(sumVar != nullptr);
          function.StoreZero(sumVar);
          auto start = vectorSize * numVectorBlocks;
          EmitInnerLoop(inputBeginPtr, paddingMaskBeginPtr, weightsBeginPtr, sumVar, ...,
                        start, numScalarBlocks, hasZeroPadding);
      }
      xorSum = (sumVar == nullptr) ? nullptr : function.Load(sumVar);
      if (vectorXorSum.value != nullptr)
          xorSum = (xorSum == nullptr) ? vectorXorSum : xorSum + vectorXorSum;
      assert(xorSum != nullptr);
      auto sumInt = function.CastValue<int>(xorSum);
      auto scaledSum = (function.LocalScalar<int>(-2) * sumInt) + (numBits * packedRowSize);
      if (hasZeroPadding)
          scaledSumWithPadding = scaledSum - function.ValueAt(pInputPaddingMaskSums, outputColumnIndex);
      auto sumFloat = function.CastValue<ValueType>(scaledSumWithPadding);
      if (partialBlockSize != 0)
          adjustedSum = sumFloat - function.LocalScalar<ValueType>(numBits - partialBlockSize);
      auto outIndex = (filterIndex * outputColumns) + outputColumnIndex;
      if (weightsScale == mean) function.SetValueAt(pOutput, outIndex, adjustedSum * filterMean);
      else function.SetValueAt(pOutput, outIndex, adjustedSum);
  });
  \<close>
\<close>

definition ComputeFilterOutput ::
  "'v arithmetic \<Rightarrow> BinaryXnorNode \<Rightarrow> bool \<Rightarrow> int \<Rightarrow> int \<Rightarrow> int \<Rightarrow> bool \<Rightarrow> int \<Rightarrow> int \<Rightarrow>
   fault + (nat \<Rightarrow> pointer list \<Rightarrow> int \<Rightarrow> ('v, 'w::len) memory \<Rightarrow> ('v, 'w) memory)" where
  "ComputeFilterOutput ops node zeroPadding outputColumns packedRowSize packedRowStride
       useVectorInstructions vectorSize numVectorBlocks =
     (let inputSize = GetActiveSize (GetInputMemoryLayout node);
          storedElementSize = int (LENGTH('w) div 8);
          storedElementNumBits = 8 * storedElementSize;
          numBits = storedElementNumBits;
          filterWidth = int_of_size_t (receptiveField (convolutionalParameters node));
          numInputChannels = inputSize 2;
          scaleByMeans = (weightsScale (convolutionalParameters node) = mean)
      in bind_fault (int_mul filterWidth filterWidth) (\<lambda>filterArea.
         bind_fault (int_mul filterArea numInputChannels) (\<lambda>fieldVolumeSize.
         bind_fault (int_rem fieldVolumeSize numBits) (\<lambda>partialBlockSize.
         bind_fault (int_mul vectorSize numVectorBlocks) (\<lambda>start.
         bind_fault (int_sub packedRowSize start) (\<lambda>numScalarBlocks.
         bind_fault (if numVectorBlocks > 0
                     then bind_fault (assert useVectorInstructions)
                            (\<lambda>_. EmitInnerLoop_vector vectorSize 0 numVectorBlocks zeroPadding)
                     else Inr (\<lambda>a b c d m. m)) (\<lambda>vectorLoop.
         bind_fault (if numScalarBlocks > 0
                     then EmitInnerLoop start numScalarBlocks zeroPadding
                     else Inr (\<lambda>a b c d m. m)) (\<lambda>scalarLoop.
         bind_fault (assert (numScalarBlocks > 0 \<or> numVectorBlocks > 0)) (\<lambda>_.
         bind_fault (int_mul numBits packedRowSize) (\<lambda>totalBits.
         bind_fault (if partialBlockSize \<noteq> 0 then int_sub numBits partialBlockSize else Inr 0)
           (\<lambda>filterAdjust.
         Inr (\<lambda>frame arguments filterIndex m.
           (case arguments of
              [pInput, pFilterWeights, pFilterMeans, pInputPaddingMask, pInputPaddingMaskSums,
               pOutput] \<Rightarrow>
                (let weightsBegin = rt_mul filterIndex packedRowStride;
                     weightsBeginPtr = PointerOffset pFilterWeights weightsBegin;
                     filterMean = (if scaleByMeans
                                   then Some (realCells m (PointerOffset pFilterMeans filterIndex))
                                   else None);
                     vectorSumVar = Variable frame ''vecXorSum'';
                     sumVar = Variable frame ''xorSum''
                 in for_loop 0 outputColumns (\<lambda>outputColumnIndex m.
                      (let inputBegin = rt_mul outputColumnIndex packedRowSize;
                           paddingBegin = rt_mul outputColumnIndex packedRowStride;
                           inputBeginPtr = PointerOffset pInput inputBegin;
                           paddingMaskBeginPtr = PointerOffset pInputPaddingMask paddingBegin;
                           m1 = (if numVectorBlocks > 0
                                 then vectorLoop inputBeginPtr paddingMaskBeginPtr weightsBeginPtr
                                        vectorSumVar
                                        (m\<lparr>vectorCells := (vectorCells m)
                                             (vectorSumVar := replicate (nat vectorSize) 0)\<rparr>)
                                 else m);
                           vectorXorSum = (if numVectorBlocks > 0
                                           then Some (sum_list (vectorCells m1 vectorSumVar))
                                           else None);
                           m2 = (if numScalarBlocks > 0
                                 then scalarLoop inputBeginPtr paddingMaskBeginPtr weightsBeginPtr
                                        sumVar
                                        (m1\<lparr>packedCells := (packedCells m1)(sumVar := 0)\<rparr>)
                                 else m1);
                           scalarXorSum = (if numScalarBlocks > 0
                                           then Some (packedCells m2 sumVar) else None);
                           xorSum = (case vectorXorSum of
                                       None \<Rightarrow> (case scalarXorSum of None \<Rightarrow> 0 | Some x \<Rightarrow> x)
                                     | Some v \<Rightarrow>
                                         (case scalarXorSum of None \<Rightarrow> v | Some x \<Rightarrow> x + v));
                           sumInt = i32 (sint xorSum);
                           scaledSum = rt_add (rt_mul (- 2) sumInt) totalBits;
                           scaledSumWithPadding =
                             (if zeroPadding
                              then rt_sub scaledSum
                                     (intCells m2 (PointerOffset pInputPaddingMaskSums
                                                     outputColumnIndex))
                              else scaledSum);
                           sumFloat = of_int32 ops scaledSumWithPadding;
                           adjustedSum = (if partialBlockSize \<noteq> 0
                                          then subtract ops sumFloat (of_int32 ops filterAdjust)
                                          else sumFloat);
                           outIndex = rt_add (rt_mul filterIndex outputColumns) outputColumnIndex
                       in m2\<lparr>realCells := (realCells m2)
                              (PointerOffset pOutput outIndex :=
                               (case filterMean of
                                  Some scale \<Rightarrow> multiply ops adjustedSum scale
                                | None \<Rightarrow> adjustedSum))\<rparr>)) m)
            | _ \<Rightarrow> m)))))))))))))"

text \<open>
  \<^verbatim>\<open>BinaryXnorNode::GetTaskFunction\<close>: the constants, then the function
  \<^verbatim>\<open>
  void <id>_task(pInput, pFilterWeights, pFilterMeans, pInputPaddingMask,
                 pInputPaddingMaskSums, pOutput, blockStartVal, blockEndVal)
  {
      for (filterIndex = blockStartVal; filterIndex < blockEndVal; filterIndex += 1)
          ComputeFilterOutput(compiler, taskFunction, pInput, ..., pOutput, filterIndex,
                              hasZeroPadding, outputColumns, packedRowSize, packedRowStride,
                              useVectorInstructions, vectorSize, numVectorBlocks);
  }
  \<close>
  The code emitted by \<^verbatim>\<open>ComputeFilterOutput\<close> uses the stack variables of the function it
  is emitted into, here the task function.
\<close>

definition Xnor_GetTaskFunction ::
  "'v arithmetic \<Rightarrow> CompilerOptions \<Rightarrow> BinaryXnorNode \<Rightarrow>
   fault + ('v, 'w::len) memory task_function" where
  "Xnor_GetTaskFunction ops compilerSettings node =
     bind_fault (Xnor_setup TYPE('w) compilerSettings node) (\<lambda>c.
     bind_fault (ComputeFilterOutput ops node (hasZeroPadding node) (c_outputColumns c)
                   (int_of_size_t (c_packedRowSize c)) (c_packedRowStride c)
                   (c_useVectorInstructions c) (c_vectorSize c) (c_numVectorBlocks c)) (\<lambda>code.
     Inr (TaskFunction (GetId node @ ''_task'') code)))"

text \<open>
  \<^verbatim>\<open>BinaryXnorNode::Compile\<close>: the constants, then
  \<^verbatim>\<open>
  const auto numFilters = outputSize[2];
  const int numDesiredTasks = compilerSettings.maxThreads;
  const int taskSize = CeilDiv(numFilters, numDesiredTasks);
  const int numTasks = CeilDiv(numFilters, taskSize);
  if (compilerSettings.parallelize && numTasks > 1) {
      auto taskFunction = GetTaskFunction(compiler, function);
      ... args = { pInput, pFilterWeights, pFilterMeans, pInputPaddingMask,
                   pInputPaddingMaskSums, pOutput, Literal(start), Literal(end) } ...
      auto tasks = function.StartTasks(taskFunction, taskArgs);
      tasks.WaitAll(function);
  } else {
      function.For(numFilters, [=, &compiler](..., i) {
          ComputeFilterOutput(compiler, function, pInput, ..., pOutput, filterIndex,
                              hasZeroPadding, outputColumns, packedRowSize, packedRowStride,
                              useVectorInstructions, vectorSize, numVectorBlocks);
      });
  }
  \<close>
\<close>

definition Xnor_pointers :: "pointer list" where
  "Xnor_pointers =
     [EnsurePortEmitted ''input'', EnsurePortEmitted ''filterWeights'',
      EnsurePortEmitted ''filterMeans'', EnsurePortEmitted ''inputPaddingMasks'',
      EnsurePortEmitted ''inputPaddingMaskSums'', EnsurePortEmitted ''output'']"

definition Xnor_Compile ::
  "'v arithmetic \<Rightarrow> CompilerOptions \<Rightarrow> BinaryXnorNode \<Rightarrow>
   fault + ('v, 'w::len) memory emitted" where
  "Xnor_Compile ops compilerSettings node =
     bind_fault (Xnor_setup TYPE('w) compilerSettings node) (\<lambda>c.
     (let numFilters = GetActiveSize (GetOutputMemoryLayout node) 2;
          numDesiredTasks = maxThreads compilerSettings
      in bind_fault (CeilDiv numFilters numDesiredTasks) (\<lambda>taskSize.
         bind_fault (CeilDiv numFilters taskSize) (\<lambda>numTasks.
         if parallelize compilerSettings \<and> numTasks > 1 then
           bind_fault (Xnor_GetTaskFunction ops compilerSettings node) (\<lambda>taskFunction.
           bind_fault (task_ranges numTasks taskSize numFilters) (\<lambda>ranges.
           Inr (StartTasks_WaitAll taskFunction
                  (map (\<lambda>(taskStart, taskEnd). (Xnor_pointers, taskStart, taskEnd)) ranges))))
         else
           bind_fault (ComputeFilterOutput ops node (hasZeroPadding node) (c_outputColumns c)
                         (int_of_size_t (c_packedRowSize c)) (c_packedRowStride c)
                         (c_useVectorInstructions c) (c_vectorSize c) (c_numVectorBlocks c))
             (\<lambda>code.
           Inr (For_count numFilters (\<lambda>i. code 0 Xnor_pointers i)))))))"

text \<open>
  A node with an empty output (every active size is 0) on a 5 x 5 x 1 input, with a
  3 x 3 receptive field, and compiler options with one thread.
\<close>

definition shape3 :: "int \<Rightarrow> int \<Rightarrow> int \<Rightarrow> MemoryShape" where
  "shape3 a b c = (\<lambda>d. if d = 0 then a else if d = 1 then b else c)"

definition empty_output_node :: BinaryReceptiveFieldMatrixNode where
  "empty_output_node =
     \<lparr>GetId = ''node'',
      convolutionalParameters = \<lparr>receptiveField = 3, stride = 1, weightsScale = none\<rparr>,
      GetInputMemoryLayout =
        \<lparr>GetExtent = shape3 5 5 1, GetActiveSize = shape3 5 5 1, GetOffset = shape3 0 0 0\<rparr>,
      GetOutputMemoryLayout =
        \<lparr>GetExtent = shape3 0 0 0, GetActiveSize = shape3 0 0 0, GetOffset = shape3 0 0 0\<rparr>\<rparr>"

definition empty_output_xnor :: BinaryXnorNode where
  "empty_output_xnor = CompilableNode.extend empty_output_node \<lparr>hasZeroPadding = False\<rparr>"

definition one_thread :: CompilerOptions where
  "one_thread =
     \<lparr>maxThreads = 1, parallelize = True, allowVectorInstructions = False, vectorWidth = 4\<rparr>"

section \<open>Derived forms of the emitted code\<close>

text \<open>
  The definitions of this section are not taken from the sources: they name what the
  proofs below speak about. A list of pairs of a frame and a loop index, executed in
  order by a body.
\<close>

definition run_pairs :: "(nat \<Rightarrow> int \<Rightarrow> 'm \<Rightarrow> 'm) \<Rightarrow> (nat \<times> int) list \<Rightarrow> 'm \<Rightarrow> 'm" where
  "run_pairs body xs = fold (\<lambda>(f, i). body f i) xs"

text \<open>
  The code that \<^verbatim>\<open>CompressRow\<close> emits when its compile-time arithmetic does not overflow: the
  loop over the complete blocks, then the partial block.
\<close>

definition CompressRow_code ::
  "('v \<Rightarrow> bool) \<Rightarrow> int \<Rightarrow> int \<Rightarrow> pointer \<Rightarrow> pointer \<Rightarrow> ('v, 'w::len) memory \<Rightarrow> ('v, 'w) memory" where
  "CompressRow_code isPositive bits nv realRow packedOutput m =
           (let m1 = for_loop 0 (nv div bits) (\<lambda>blockIndex m'.
                       m'\<lparr>packedCells := (packedCells m')
                            (PointerOffset packedOutput blockIndex :=
                             pack_bits isPositive m' realRow
                               (\<lambda>bitIndex. rt_add (rt_mul blockIndex bits) bitIndex) bits)\<rparr>) m
            in if nv mod bits \<noteq> 0
               then m1\<lparr>packedCells := (packedCells m1)
                        (PointerOffset packedOutput (nv div bits) :=
                         pack_bits isPositive m1 realRow
                           (\<lambda>bitIndex. nv div bits * bits + bitIndex) (nv mod bits))\<rparr>
               else m1)"



text \<open>The iterations that a schedule executes, as pairs of frame and loop index.\<close>

fun iterations :: "(pointer list \<times> int \<times> int) list \<Rightarrow> (nat \<Rightarrow> int) \<Rightarrow> nat list \<Rightarrow> (nat \<times> int) list" where
  "iterations taskArgs next [] = []"
| "iterations taskArgs next (k # schedule) =
     (if k < length taskArgs \<and> next k < snd (snd (taskArgs ! k))
      then (Suc k, next k) # iterations taskArgs (next(k := next k + 1)) schedule
      else iterations taskArgs next schedule)"


text \<open>
  The code that \<^verbatim>\<open>ComputeFilterOutput\<close> emits for one output column and for one filter, as
  functions of the constants it has computed and of the two inner loops.
\<close>

type_synonym ('v, 'w) inner_loop =
  "pointer \<Rightarrow> pointer \<Rightarrow> pointer \<Rightarrow> pointer \<Rightarrow> ('v, 'w) memory \<Rightarrow> ('v, 'w) memory"

definition column_code ::
  "'v arithmetic \<Rightarrow> bool \<Rightarrow> int \<Rightarrow> int \<Rightarrow> int \<Rightarrow> int \<Rightarrow> int \<Rightarrow> int \<Rightarrow> int \<Rightarrow> int \<Rightarrow> int \<Rightarrow>
   ('v, 'w::len) inner_loop \<Rightarrow> ('v, 'w) inner_loop \<Rightarrow> 'v option \<Rightarrow> pointer \<Rightarrow> pointer \<Rightarrow> pointer \<Rightarrow>
   pointer \<Rightarrow> pointer \<Rightarrow> pointer \<Rightarrow> pointer \<Rightarrow> int \<Rightarrow> int \<Rightarrow> ('v, 'w) memory \<Rightarrow> ('v, 'w) memory" where
  "column_code ops zeroPadding outputColumns packedRowSize packedRowStride vectorSize
       numVectorBlocks numScalarBlocks totalBits partialBlockSize filterAdjust vectorLoop scalarLoop
       filterMean weightsBeginPtr vectorSumVar sumVar pInput pInputPaddingMask
       pInputPaddingMaskSums pOutput filterIndex outputColumnIndex m =
     (let inputBegin = rt_mul outputColumnIndex packedRowSize;
          paddingBegin = rt_mul outputColumnIndex packedRowStride;
          inputBeginPtr = PointerOffset pInput inputBegin;
          paddingMaskBeginPtr = PointerOffset pInputPaddingMask paddingBegin;
          m1 = (if numVectorBlocks > 0
                then vectorLoop inputBeginPtr paddingMaskBeginPtr weightsBeginPtr
                       vectorSumVar
                       (m\<lparr>vectorCells := (vectorCells m)
                            (vectorSumVar := replicate (nat vectorSize) 0)\<rparr>)
                else m);
          vectorXorSum = (if numVectorBlocks > 0
                          then Some (sum_list (vectorCells m1 vectorSumVar))
                          else None);
          m2 = (if numScalarBlocks > 0
                then scalarLoop inputBeginPtr paddingMaskBeginPtr weightsBeginPtr
                       sumVar
                       (m1\<lparr>packedCells := (packedCells m1)(sumVar := 0)\<rparr>)
                else m1);
          scalarXorSum = (if numScalarBlocks > 0
                          then Some (packedCells m2 sumVar) else None);
          xorSum = (case vectorXorSum of
                      None \<Rightarrow> (case scalarXorSum of None \<Rightarrow> 0 | Some x \<Rightarrow> x)
                    | Some v \<Rightarrow>
                        (case scalarXorSum of None \<Rightarrow> v | Some x \<Rightarrow> x + v));
          sumInt = i32 (sint xorSum);
          scaledSum = rt_add (rt_mul (- 2) sumInt) totalBits;
          scaledSumWithPadding =
            (if zeroPadding
             then rt_sub scaledSum
                    (intCells m2 (PointerOffset pInputPaddingMaskSums
                                    outputColumnIndex))
             else scaledSum);
          sumFloat = of_int32 ops scaledSumWithPadding;
          adjustedSum = (if partialBlockSize \<noteq> 0
                         then subtract ops sumFloat (of_int32 ops filterAdjust)
                         else sumFloat);
          outIndex = rt_add (rt_mul filterIndex outputColumns) outputColumnIndex
      in m2\<lparr>realCells := (realCells m2)
             (PointerOffset pOutput outIndex :=
              (case filterMean of
                 Some scale \<Rightarrow> multiply ops adjustedSum scale
               | None \<Rightarrow> adjustedSum))\<rparr>)"

definition filter_code ::
  "'v arithmetic \<Rightarrow> bool \<Rightarrow> bool \<Rightarrow> int \<Rightarrow> int \<Rightarrow> int \<Rightarrow> int \<Rightarrow> int \<Rightarrow> int \<Rightarrow> int \<Rightarrow> int \<Rightarrow> int \<Rightarrow>
   ('v, 'w::len) inner_loop \<Rightarrow> ('v, 'w) inner_loop \<Rightarrow>
   nat \<Rightarrow> pointer list \<Rightarrow> int \<Rightarrow> ('v, 'w) memory \<Rightarrow> ('v, 'w) memory" where
  "filter_code ops scaleByMeans zeroPadding outputColumns packedRowSize packedRowStride vectorSize
       numVectorBlocks numScalarBlocks totalBits partialBlockSize filterAdjust vectorLoop scalarLoop
       frame arguments filterIndex m =
     (case arguments of
        [pInput, pFilterWeights, pFilterMeans, pInputPaddingMask, pInputPaddingMaskSums,
         pOutput] \<Rightarrow>
          for_loop 0 outputColumns
            (column_code ops zeroPadding outputColumns packedRowSize packedRowStride vectorSize
               numVectorBlocks numScalarBlocks totalBits partialBlockSize filterAdjust vectorLoop
               scalarLoop
               (if scaleByMeans then Some (realCells m (PointerOffset pFilterMeans filterIndex))
                else None)
               (PointerOffset pFilterWeights (rt_mul filterIndex packedRowStride))
               (Variable frame ''vecXorSum'') (Variable frame ''xorSum'')
               pInput pInputPaddingMask pInputPaddingMaskSums pOutput filterIndex) m
      | _ \<Rightarrow> m)"








section \<open>Properties of the task splitting\<close>

lemma sdiv_nonneg: "0 \<le> a \<Longrightarrow> 0 < b \<Longrightarrow> (a::int) sdiv b = a div b"
  by (simp add: signed_divide_int_def sgn_if)

lemma CeilDiv_pos:
  assumes "1 \<le> a" "a \<le> INT_MAX" "1 \<le> b"
  shows "CeilDiv a b = Inr ((a - 1) div b + 1)"
proof -
  have "0 \<le> (a - 1) div b" using assms by (simp add: pos_imp_zdiv_nonneg_iff)
  moreover have "(a - 1) div b \<le> a - 1" using assms
    by (metis diff_ge_0_iff_ge div_by_1 zdiv_mono2 zero_less_one)
  ultimately show ?thesis using assms
    by (simp add: CeilDiv_def int_sub_def int_div_def int_add_def to_int_def INT_MIN_def
        INT_MAX_def sdiv_nonneg)
qed

lemma neg_div_ceil:
  assumes "1 \<le> (d::int)"
  shows "- ((- n) div d) = (n - 1) div d + 1"
proof -
  define q where "q = (n - 1) div d"
  define r where "r = (n - 1) mod d"
  have r: "0 \<le> r" "r < d" using assms by (simp_all add: r_def)
  have n: "n - 1 = d * q + r" by (simp add: q_def r_def)
  have "- n = d * (- (q + 1)) + (d - 1 - r)" using n by (simp add: algebra_simps)
  moreover have "0 \<le> d - 1 - r" "d - 1 - r < d" using r by simp_all
  ultimately have "(- n) div d = - (q + 1)" by (rule int_div_pos_eq)
  then show ?thesis by (simp add: q_def)
qed

lemma ceil_div_spec_eq:
  assumes "1 \<le> d"
  shows "ceil_div_spec n d = (n - 1) div d + 1"
  unfolding ceil_div_spec_def using neg_div_ceil [OF assms, of n]
  by (simp add: ceiling_divide_eq_div)

lemma tr_from:
  assumes "0 \<le> i" "0 \<le> ts" "nt * ts \<le> INT_MAX" "nt \<le> INT_MAX"
  shows "task_ranges_from i nt ts N = Inr (map (\<lambda>k. (k * ts, min ((k + 1) * ts) N)) [i..nt - 1])"
  using assms
proof (induction i nt ts N rule: task_ranges_from.induct)
  case (1 i nt ts N)
  show ?case
  proof (cases "i < nt")
    case False
    then show ?thesis by (subst task_ranges_from.simps) simp
  next
    case True
    have a: "0 \<le> i * ts" using 1 by simp
    have "(i + 1) * ts \<le> nt * ts" using True "1.prems" by (intro mult_right_mono) simp_all
    then have b: "(i + 1) * ts \<le> INT_MAX" using "1.prems" by simp
    have "i * ts \<le> (i + 1) * ts" using "1.prems" by (simp add: algebra_simps)
    then have c: "i * ts \<le> INT_MAX" using b by simp
    have d: "0 \<le> (i + 1) * ts" using "1.prems" by simp
    have m1: "int_mul i ts = Inr (i * ts)" using a c by (simp add: int_mul_def to_int_def INT_MIN_def)
    have m2: "int_add i 1 = Inr (i + 1)" using True "1.prems" by (simp add: int_add_def to_int_def INT_MIN_def)
    have m3: "int_mul (i + 1) ts = Inr ((i + 1) * ts)" using b d by (simp add: int_mul_def to_int_def INT_MIN_def)
    have ih: "task_ranges_from (i + 1) nt ts N = Inr (map (\<lambda>k. (k * ts, min ((k + 1) * ts) N)) [i + 1..nt - 1])"
      using "1.IH" [OF True m1 m2 m3] "1.prems" by simp
    have u: "[i..nt - 1] = i # [i + 1..nt - 1]" using True by (simp add: upto_rec1)
    show ?thesis
      by (subst task_ranges_from.simps) (simp add: True m1 m2 m3 ih u del: task_ranges_from.simps)
  qed
qed

lemma tiles_from_le: "tiles_from lo hi rs \<Longrightarrow> lo \<le> hi"
  by (induction lo hi rs rule: tiles_from.induct) auto

lemma tiles_from_bounds: "tiles_from lo hi rs \<Longrightarrow> (s, e) \<in> set rs \<Longrightarrow> lo \<le> s \<and> s < e \<and> e \<le> hi"
proof (induction lo hi rs rule: tiles_from.induct)
  case (1 lo hi)
  then show ?case by simp
next
  case (2 lo hi s' e' rs)
  then show ?case using tiles_from_le [of e' hi rs] by auto
qed

lemma tiles_from_union: "tiles_from lo hi rs \<Longrightarrow> (\<Union>(s, e)\<in>set rs. {s..<e}) = {lo..<hi}"
proof (induction lo hi rs rule: tiles_from.induct)
  case (1 lo hi)
  then show ?case by simp
next
  case (2 lo hi s e rs)
  from 2(2) have "tiles_from e hi rs" by simp
  then have "e \<le> hi" by (rule tiles_from_le)
  with 2 show ?case by auto
qed

lemma tiles_from_sorted: "tiles_from lo hi rs \<Longrightarrow> sorted_wrt (\<lambda>(s, e) (s', e'). e \<le> s') rs"
proof (induction lo hi rs rule: tiles_from.induct)
  case (1 lo hi)
  then show ?case by simp
next
  case (2 lo hi s e rs)
  then show ?case using tiles_from_bounds [of e hi rs] by auto
qed

lemma tiles_from_contiguous: "tiles_from lo hi rs \<Longrightarrow> Suc i < length rs \<Longrightarrow> snd (rs ! i) = fst (rs ! Suc i)"
proof (induction lo hi rs arbitrary: i rule: tiles_from.induct)
  case (1 lo hi)
  then show ?case by simp
next
  case (2 lo hi s e rs)
  show ?case
  proof (cases i)
    case 0
    then show ?thesis using 2 by (cases rs) auto
  next
    case (Suc j)
    then show ?thesis using 2 by auto
  qed
qed

lemma tiles_from_concat: "tiles_from lo hi rs \<Longrightarrow> concat (map (\<lambda>(s, e). [s..e - 1]) rs) = [lo..hi - 1]"
proof (induction lo hi rs rule: tiles_from.induct)
  case (1 lo hi)
  then show ?case by simp
next
  case (2 lo hi s e rs)
  from 2(2) have "tiles_from e hi rs" by simp
  then have "e \<le> hi" by (rule tiles_from_le)
  with 2 show ?case using upto_split2 [of lo "e - 1" "hi - 1"] by auto
qed

lemma div_bounds:
  assumes "1 \<le> (ts::int)"
  shows "(n div ts) * ts \<le> n" and "n < (n div ts + 1) * ts"
proof -
  define q where "q = n div ts"
  define r where "r = n mod ts"
  have "n = q * ts + r" by (simp add: q_def r_def)
  moreover have "0 \<le> r" "r < ts" using assms by (simp_all add: r_def)
  ultimately have "q * ts \<le> n" and "n < (q + 1) * ts"
    by (simp_all add: algebra_simps)
  then show "(n div ts) * ts \<le> n" and "n < (n div ts + 1) * ts"
    by (simp_all add: q_def)
qed

lemma tiles_map:
  assumes "1 \<le> ts" "1 \<le> N" "0 \<le> i" "i \<le> (N - 1) div ts"
  shows "tiles_from (i * ts) N (map (\<lambda>k. (k * ts, min ((k + 1) * ts) N)) [i..(N - 1) div ts])"
  using assms(3,4)
proof (induction "nat ((N - 1) div ts - i)" arbitrary: i)
  case 0
  then have i: "i = (N - 1) div ts" by simp
  have "i * ts \<le> N - 1" "N - 1 < (i + 1) * ts"
    unfolding i using div_bounds [OF assms(1), of "N - 1"] by simp_all
  then show ?case by (simp add: i [symmetric])
next
  case (Suc n)
  then have lt: "i < (N - 1) div ts" by simp
  have "(i + 1) * ts \<le> (N - 1) div ts * ts"
    using lt assms(1) by (intro mult_right_mono) simp_all
  also have "\<dots> \<le> N - 1" using div_bounds(1) [OF assms(1)] .
  finally have le: "(i + 1) * ts \<le> N - 1" .
  have ih: "tiles_from ((i + 1) * ts) N (map (\<lambda>k. (k * ts, min ((k + 1) * ts) N)) [i + 1..(N - 1) div ts])"
    using Suc(1) [of "i + 1"] Suc(2) Suc(3) lt by simp
  have u: "[i..(N - 1) div ts] = i # [i + 1..(N - 1) div ts]" using lt by (simp add: upto_rec1)
  have "i * ts < (i + 1) * ts" using assms(1) by (simp add: algebra_simps)
  then show ?case using ih le by (simp add: u)
qed

text \<open>
  Where the task splitting does what its comment says. For every total work size
  \<open>N \<ge> 1\<close> and desired task count \<open>D \<ge> 1\<close> for which
  \<open>ceil(N / ceil(N / D)) * ceil(N / D)\<close> is representable as an \<^verbatim>\<open>int\<close>, the task size computed
  by \<^verbatim>\<open>CeilDiv\<close> is \<open>ceil(N / D)\<close>, the task count is \<open>ceil(N / taskSize)\<close>, the loop over the
  task indices produces the ranges \<open>[i * taskSize, min((i + 1) * taskSize, N))\<close>, and these
  ranges are non-empty, sorted, pairwise disjoint, contiguous, and cover exactly \<open>[0, N)\<close>.
\<close>

theorem task_ranges_tile:
  assumes "1 \<le> N" and "1 \<le> D"
    and "ceil_div_spec N (ceil_div_spec N D) * ceil_div_spec N D \<le> INT_MAX"
  shows "let taskSize = ceil_div_spec N D;
             numTasks = ceil_div_spec N taskSize;
             rs = map (\<lambda>i. (i * taskSize, min ((i + 1) * taskSize) N)) [0..numTasks - 1]
         in CeilDiv N D = Inr taskSize \<and>
            CeilDiv N taskSize = Inr numTasks \<and>
            task_ranges numTasks taskSize N = Inr rs \<and>
            tiles_from 0 N rs \<and>
            (\<forall>(s, e)\<in>set rs. 0 \<le> s \<and> s < e \<and> e \<le> N) \<and>
            sorted_wrt (\<lambda>(s, e) (s', e'). e \<le> s') rs \<and>
            (\<forall>i. Suc i < length rs \<longrightarrow> snd (rs ! i) = fst (rs ! Suc i)) \<and>
            (\<Union>(s, e)\<in>set rs. {s..<e}) = {0..<N} \<and>
            concat (map (\<lambda>(s, e). [s..e - 1]) rs) = [0..N - 1]"
proof -
  define ts where "ts = ceil_div_spec N D"
  define nt where "nt = ceil_div_spec N ts"
  define rs where "rs = map (\<lambda>i. (i * ts, min ((i + 1) * ts) N)) [0..nt - 1]"
  have ts: "ts = (N - 1) div D + 1" unfolding ts_def using assms(2) by (rule ceil_div_spec_eq)
  have ts1: "1 \<le> ts" unfolding ts using assms by (simp add: pos_imp_zdiv_nonneg_iff)
  have nt: "nt = (N - 1) div ts + 1" unfolding nt_def using ts1 by (rule ceil_div_spec_eq)
  have nt1: "1 \<le> nt" unfolding nt using assms ts1 by (simp add: pos_imp_zdiv_nonneg_iff)
  have bound: "nt * ts \<le> INT_MAX" using assms(3) by (simp add: nt_def ts_def)
  have "N - 1 < nt * ts" unfolding nt using div_bounds(2) [OF ts1, of "N - 1"] .
  then have N: "N \<le> INT_MAX" using bound by simp
  have "nt * 1 \<le> nt * ts" using ts1 nt1 by (intro mult_left_mono) simp_all
  then have ntmax: "nt \<le> INT_MAX" using bound by simp
  have c1: "CeilDiv N D = Inr ts" using CeilDiv_pos [OF assms(1) N assms(2)] by (simp add: ts)
  have c2: "CeilDiv N ts = Inr nt" using CeilDiv_pos [OF assms(1) N ts1] by (simp add: nt)
  have c3: "task_ranges nt ts N = Inr rs"
    unfolding task_ranges_def rs_def using ts1 bound ntmax by (intro tr_from) simp_all
  have t: "tiles_from 0 N rs"
    using tiles_map [OF ts1 assms(1), of 0] assms(1) ts1
    by (simp add: rs_def nt pos_imp_zdiv_nonneg_iff)
  have b: "\<forall>(s, e)\<in>set rs. 0 \<le> s \<and> s < e \<and> e \<le> N"
    using tiles_from_bounds [OF t] by blast
  have c: "\<forall>i. Suc i < length rs \<longrightarrow> snd (rs ! i) = fst (rs ! Suc i)"
    using tiles_from_contiguous [OF t] by blast
  show ?thesis
    unfolding Let_def ts_def [symmetric] nt_def [symmetric] rs_def [symmetric]
    using c1 c2 c3 t b c tiles_from_sorted [OF t] tiles_from_union [OF t] tiles_from_concat [OF t]
    by simp
qed

text \<open>The theorem at \<open>N = 10\<close>, \<open>D = 4\<close>: task size 3, four tasks.\<close>

lemma ceil_div_spec_10_4: "ceil_div_spec 10 4 = 3" "ceil_div_spec 10 3 = 4"
  by (simp_all add: ceil_div_spec_eq)

theorem task_ranges_tile_witness:
  "CeilDiv 10 4 = Inr 3 \<and> CeilDiv 10 3 = Inr 4 \<and>
   task_ranges 4 3 10 = Inr [(0, 3), (3, 6), (6, 9), (9, 10)] \<and>
   tiles_from 0 10 [(0, 3), (3, 6), (6, 9), (9, 10)]"
proof -
  have h1: "(1::int) \<le> 10" and h2: "(1::int) \<le> 4" by simp_all
  have h3: "ceil_div_spec 10 (ceil_div_spec 10 4) * ceil_div_spec 10 4 \<le> INT_MAX"
    by (simp add: ceil_div_spec_10_4 INT_MAX_def)
  have u: "[0..(3::int)] = [0, 1, 2, 3]" by (simp add: upto_rec1)
  show ?thesis
    using task_ranges_tile [OF h1 h2 h3]
    by (simp add: Let_def ceil_div_spec_10_4 u)
qed

text \<open>
  Claim C1 at a total work size of 0. \<^verbatim>\<open>CeilDiv\<close> is commented \<^verbatim>\<open>// computes ceil(a/b)\<close>, and
  for \<open>a = 0\<close>, \<open>b = 2\<close> it returns 1, where \<open>ceil(0 / 2) = 0\<close>. For \<open>a = 0\<close>, \<open>b = 1\<close> it
  returns the task size 0, and the task count \<^verbatim>\<open>CeilDiv(0, 0)\<close> is a division by zero:
  compiling a node with an empty output for one thread fails, for both nodes and whether
  or not the tasks are run in parallel, because the task count is computed before the
  choice.
\<close>

lemma empty_output_setup:
  "fieldVolumeSize_of empty_output_node = 9" "packedRowSize_of 9 64 = Inr 1"
  by (simp_all add: fieldVolumeSize_of_def empty_output_node_def shape3_def size_mul_def
      size_t_of_int_def SIZE_MOD_def packedRowSize_of_def size_sub_def size_div_def size_add_def
      Let_def bind_fault_def)

lemma CeilDiv_zero:
  "CeilDiv 0 2 = Inr 1" "CeilDiv 0 1 = Inr 0" "CeilDiv 0 0 = Inl DivisionByZero"
  by (simp_all add: CeilDiv_def int_sub_def int_div_def int_add_def to_int_def INT_MIN_def
      INT_MAX_def signed_divide_int_def)

theorem Compile_empty_output:
  "CeilDiv 0 2 = Inr 1 \<and> ceil_div_spec 0 2 = 0 \<and>
   CeilDiv 0 1 = Inr 0 \<and> CeilDiv 0 0 = Inl DivisionByZero \<and>
   (RFM_Compile ops one_thread empty_output_node :: fault + ('v, 64) memory emitted) =
     Inl DivisionByZero \<and>
   (RFM_Compile ops (one_thread\<lparr>parallelize := False\<rparr>) empty_output_node
      :: fault + ('v, 64) memory emitted) = Inl DivisionByZero \<and>
   (Xnor_Compile ops one_thread empty_output_xnor :: fault + ('v, 64) memory emitted) =
     Inl DivisionByZero \<and>
   (Xnor_Compile ops (one_thread\<lparr>parallelize := False\<rparr>) empty_output_xnor
      :: fault + ('v, 64) memory emitted) = Inl DivisionByZero"
proof -
  have a: "(RFM_Compile ops (one_thread\<lparr>parallelize := b\<rparr>) empty_output_node
      :: fault + ('v, 64) memory emitted) = Inl DivisionByZero" for b
    unfolding RFM_Compile_def Let_def
    by (simp add: empty_output_setup size_mul_def SIZE_MOD_def assert_def CeilDiv_zero one_thread_def
        int_mul_def to_int_def INT_MIN_def INT_MAX_def bind_fault_def)
       (simp add: bind_fault_def empty_output_node_def shape3_def CeilDiv_zero int_mul_def
        to_int_def INT_MIN_def INT_MAX_def)
  have s: "\<exists>c. Xnor_setup TYPE(64) (one_thread\<lparr>parallelize := b\<rparr>) empty_output_xnor = Inr c" for b
    unfolding Xnor_setup_def Let_def
    by (simp add: empty_output_xnor_def CompilableNode.extend_def empty_output_node_def shape3_def
        size_mul_def SIZE_MOD_def size_div_def assert_def size_t_of_int_def packedRowSize_of_def
        size_sub_def size_add_def int_mul_def to_int_def INT_MIN_def INT_MAX_def one_thread_def
        bind_fault_def)
  have n: "GetActiveSize (GetOutputMemoryLayout empty_output_xnor) 2 = 0"
    by (simp add: empty_output_xnor_def CompilableNode.extend_def empty_output_node_def shape3_def)
  have x: "(Xnor_Compile ops (one_thread\<lparr>parallelize := b\<rparr>) empty_output_xnor
      :: fault + ('v, 64) memory emitted) = Inl DivisionByZero" for b
    using s [of b] unfolding Xnor_Compile_def Let_def n
    by (auto simp: CeilDiv_zero one_thread_def bind_fault_def)
  have p: "one_thread\<lparr>parallelize := True\<rparr> = one_thread" by (simp add: one_thread_def)
  show ?thesis using a [of True] a [of False] x [of True] x [of False]
    by (simp add: CeilDiv_zero ceil_div_spec_def p)
qed

text \<open>
  With two or more threads the empty output compiles to no task at all: the task size
  is 1 and the task count 0.
\<close>

lemma task_ranges_zero: "CeilDiv 0 2 = Inr 1 \<and> CeilDiv 0 1 = Inr 0 \<and> task_ranges 0 1 0 = Inr []"
  by (simp add: CeilDiv_zero task_ranges_def task_ranges_from.simps [of 0 0 1 0])

text \<open>
  Beyond the bound of the theorem the multiplication \<^verbatim>\<open>(taskIndex + 1) * taskSize\<close> overflows:
  \<open>N = 2147483647\<close>, \<open>D = 2\<close>.
\<close>

lemma task_ranges_overflow:
  "CeilDiv 2147483647 2 = Inr 1073741824 \<and> CeilDiv 2147483647 1073741824 = Inr 2 \<and>
   task_ranges 2 1073741824 2147483647 = Inl SignedOverflow"
  by (simp add: CeilDiv_def int_sub_def int_div_def int_add_def int_mul_def to_int_def INT_MIN_def INT_MAX_def
      signed_divide_int_def task_ranges_def
      task_ranges_from.simps [of 0 2 1073741824 2147483647]
      task_ranges_from.simps [of 1 2 1073741824 2147483647])

section \<open>Properties of the input ports\<close>

lemma get_set_referencedPort:
  "inputPorts st this \<noteq> None \<Longrightarrow>
   get_referencedPort (set_referencedPort st this v) i = (if i = this then v else get_referencedPort st i)"
  by (auto simp: get_referencedPort_def set_referencedPort_def split: option.splits)

lemma outputPorts_set_referencedPort:
  "outputPorts (set_referencedPort st this v) = outputPorts st"
  by (simp add: set_referencedPort_def split: option.splits)

lemma inputPorts_AddReference: "inputPorts (AddReference st port r) = inputPorts st"
  by (simp add: AddReference_def)

lemma inputPorts_RemoveReference: "inputPorts (RemoveReference st port r) = inputPorts st"
  by (simp add: RemoveReference_def)

lemma get_referencedPort_AddReference:
  "get_referencedPort (AddReference st port r) i = get_referencedPort st i"
  by (simp add: get_referencedPort_def inputPorts_AddReference)

lemma get_referencedPort_RemoveReference:
  "get_referencedPort (RemoveReference st port r) i = get_referencedPort st i"
  by (simp add: get_referencedPort_def inputPorts_RemoveReference)

lemma references_AddReference:
  "references (outputPorts (AddReference st port r) q) =
     (if q = port then insert r (references (outputPorts st q)) else references (outputPorts st q))"
  by (simp add: AddReference_def)

lemma references_RemoveReference:
  "references (outputPorts (RemoveReference st port r) q) =
     (if q = port then references (outputPorts st q) - {r} else references (outputPorts st q))"
  by (simp add: RemoveReference_def)

lemmas port_simps = get_set_referencedPort outputPorts_set_referencedPort inputPorts_AddReference
  inputPorts_RemoveReference get_referencedPort_AddReference get_referencedPort_RemoveReference
  references_AddReference references_RemoveReference

lemma SetReferencedPort_consistent:
  assumes "ports_consistent st" and "inputPorts st this \<noteq> None"
  shows "ports_consistent (SetReferencedPort st this input)"
proof -
  have c: "\<And>i port. (i \<in> references (outputPorts st port)) = (get_referencedPort st i = Some port)"
    using assms(1) by (simp add: ports_consistent_def)
  show ?thesis
    unfolding ports_consistent_def SetReferencedPort_def Let_def
    using assms(2)
    by (cases "get_referencedPort st this"; cases input) (auto simp: port_simps c)
qed

lemma destroy_consistent:
  assumes "ports_consistent st"
  shows "ports_consistent (destroy_InputPortBase st this)"
proof -
  have c: "\<And>i port. (i \<in> references (outputPorts st port)) = (get_referencedPort st i = Some port)"
    using assms(1) by (simp add: ports_consistent_def)
  have g: "\<And>st' st'' i. get_referencedPort (st'\<lparr>inputPorts := (inputPorts st'')(this := None)\<rparr>) i =
      (if i = this then None else get_referencedPort st'' i)"
    by (simp add: get_referencedPort_def)
  show ?thesis
    unfolding ports_consistent_def destroy_InputPortBase_def Let_def
    by (cases "get_referencedPort st this") (auto simp: port_simps c g)
qed

lemma example_ports_consistent: "ports_consistent example_ports"
  by (auto simp: ports_consistent_def example_ports_def get_referencedPort_def split: if_splits)

lemma UpdateReferencedPort_consistent:
  assumes "ports_consistent st" and "get_referencedPort st this = Some port"
  shows "UpdateReferencedPort st this = Some st"
proof -
  have "this \<in> references (outputPorts st port)"
    using assms by (simp add: ports_consistent_def)
  then show ?thesis using assms(2) by (simp add: UpdateReferencedPort_def HasReference_def)
qed

text \<open>
  Claim C6, as amended. From a store in which every input port references an output port
  if and only if it is in that port's reference set, binding, rebinding or unbinding an
  input port with \<^verbatim>\<open>SetReferencedPort\<close> and destroying an input port keep the invariant;
  after \<^verbatim>\<open>SetReferencedPort\<close> the input references the given port, which has the input in its
  reference set, and after \<^verbatim>\<open>SetReferencedPort(nullptr)\<close> no reference set holds the input.
  \<^verbatim>\<open>ClearReferencedPort\<close> resets the input's pointer only and leaves every reference set
  as it was.
\<close>

theorem port_binding_consistent:
  assumes "ports_consistent st" and "inputPorts st this \<noteq> None"
  shows "ports_consistent (SetReferencedPort st this input) \<and>
         get_referencedPort (SetReferencedPort st this input) this = input \<and>
         (\<forall>port. input = Some port \<longrightarrow>
            this \<in> references (outputPorts (SetReferencedPort st this input) port)) \<and>
         (\<forall>port. this \<notin> references (outputPorts (SetReferencedPort st this None) port)) \<and>
         ports_consistent (destroy_InputPortBase st this) \<and>
         inputPorts (destroy_InputPortBase st this) this = None \<and>
         get_referencedPort (ClearReferencedPort st this) this = None \<and>
         outputPorts (ClearReferencedPort st this) = outputPorts st"
proof -
  have c: "\<And>input. ports_consistent (SetReferencedPort st this input)"
    using assms by (rule SetReferencedPort_consistent)
  have g: "\<And>input. get_referencedPort (SetReferencedPort st this input) this = input"
    using assms(2) unfolding SetReferencedPort_def Let_def
    by (auto simp: port_simps split: option.splits)
  have r: "\<And>input i port. (i \<in> references (outputPorts (SetReferencedPort st this input) port)) =
      (get_referencedPort (SetReferencedPort st this input) i = Some port)"
    using c by (simp add: ports_consistent_def)
  have d: "inputPorts (destroy_InputPortBase st this) this = None"
    by (simp add: destroy_InputPortBase_def Let_def)
  show ?thesis
    using c [of input] destroy_consistent [OF assms(1), of this] assms(2) d
    by (simp add: r g ClearReferencedPort_def port_simps)
qed

theorem port_binding_consistent_witness:
  "ports_consistent example_ports \<and> inputPorts example_ports 0 \<noteq> None \<and>
   ports_consistent (SetReferencedPort example_ports 0 (Some 1)) \<and>
   get_referencedPort (SetReferencedPort example_ports 0 (Some 1)) 0 = Some 1 \<and>
   0 \<in> references (outputPorts (SetReferencedPort example_ports 0 (Some 1)) 1) \<and>
   0 \<notin> references (outputPorts (SetReferencedPort example_ports 0 None) 0) \<and>
   ports_consistent (destroy_InputPortBase example_ports 0)"
proof -
  have h: "inputPorts example_ports 0 \<noteq> None" by (simp add: example_ports_def)
  show ?thesis
    using port_binding_consistent [OF example_ports_consistent h, of "Some 1"] h
      example_ports_consistent
    by simp
qed

text \<open>
  Claim C6 as stated fails for \<^verbatim>\<open>ClearReferencedPort\<close>: in the store with input port 0 bound
  to output port 0, clearing the input leaves it in the reference set of the output port
  it no longer references.
\<close>

theorem ClearReferencedPort_counterexample:
  "ports_consistent example_ports \<and>
   get_referencedPort (ClearReferencedPort example_ports 0) 0 = None \<and>
   0 \<in> references (outputPorts (ClearReferencedPort example_ports 0) 0) \<and>
   \<not> ports_consistent (ClearReferencedPort example_ports 0)"
proof -
  have a: "get_referencedPort (ClearReferencedPort example_ports 0) 0 = None"
    by (simp add: ClearReferencedPort_def set_referencedPort_def get_referencedPort_def
        example_ports_def)
  have b: "0 \<in> references (outputPorts (ClearReferencedPort example_ports 0) 0)"
    by (simp add: ClearReferencedPort_def set_referencedPort_def example_ports_def)
  have "\<not> ports_consistent (ClearReferencedPort example_ports 0)"
    using a b unfolding ports_consistent_def by (metis option.distinct(1))
  then show ?thesis using a b example_ports_consistent by simp
qed

text \<open>
  Claim C7, as amended. On an input port that is not bound, \<^verbatim>\<open>GetReferencedPort\<close> and
  \<^verbatim>\<open>GetInputElement\<close> (for every index, and whatever the elements of a port are) raise a
  \<^verbatim>\<open>LogicException\<close> with the code \<^verbatim>\<open>illegalState\<close>; \<^verbatim>\<open>Size\<close> and \<^verbatim>\<open>GetParentNodes\<close> raise
  nothing and return 0 and the empty list.
\<close>

theorem unbound_port_illegalState:
  assumes "inputPorts st this = Some p" and "referencedPort p = None"
  shows "GetReferencedPort st this = Inl (LogicException illegalState) \<and>
         GetInputElement getElement st this index = Inl (LogicException illegalState) \<and>
         Size st this = Inr 0 \<and>
         GetParentNodes getNode st this = []"
  using assms
  by (simp add: GetReferencedPort_def GetInputElement_def IsValid_def get_referencedPort_def
      Size_def GetParentNodes_def)

theorem unbound_port_illegalState_witness:
  "inputPorts example_unbound 0 = Some \<lparr>referencedPort = None\<rparr> \<and>
   GetReferencedPort example_unbound 0 = Inl (LogicException illegalState) \<and>
   GetInputElement (\<lambda>port i. Inr (port, i)) example_unbound 0 3 = Inl (LogicException illegalState) \<and>
   Size example_unbound 0 = Inr 0 \<and>
   GetParentNodes id example_unbound 0 = []"
proof -
  have h: "inputPorts example_unbound 0 = Some \<lparr>referencedPort = None\<rparr>"
    by (simp add: example_unbound_def)
  show ?thesis
    using unbound_port_illegalState [OF h, of "\<lambda>port i. Inr (port, i)" 3 id] h by simp
qed

text \<open>
  Claim C7 as stated, that querying an unbound port raises \<^verbatim>\<open>illegalState\<close>, fails for the
  queries \<^verbatim>\<open>Size\<close> and \<^verbatim>\<open>GetParentNodes\<close>: on the unbound port of the example they return
  0 and the empty list.
\<close>

theorem unbound_queries_counterexample:
  "IsValid example_unbound 0 = False \<and>
   Size example_unbound 0 = Inr 0 \<and>
   Size example_unbound 0 \<noteq> Inl (LogicException illegalState) \<and>
   GetParentNodes id example_unbound 0 = []"
  by (simp add: Size_def GetParentNodes_def IsValid_def get_referencedPort_def example_unbound_def)

text \<open>
  Claim C10. \<^verbatim>\<open>Size\<close> of an input port that is not bound returns 0 and raises nothing;
  \<^verbatim>\<open>Size\<close> of a bound input port returns the size of the output port it references.
\<close>

theorem Size_of_input_port:
  assumes "inputPorts st this = Some p"
  shows "(referencedPort p = None \<longrightarrow> Size st this = Inr 0) \<and>
         (\<forall>port. referencedPort p = Some port \<longrightarrow>
            Size st this = Inr (portSize (outputPorts st port)))"
  using assms
  by (simp add: Size_def GetReferencedPort_def IsValid_def get_referencedPort_def)

theorem Size_of_input_port_witness:
  "inputPorts example_unbound 0 = Some \<lparr>referencedPort = None\<rparr> \<and>
   Size example_unbound 0 = Inr 0 \<and>
   inputPorts example_ports 0 = Some \<lparr>referencedPort = Some 0\<rparr> \<and>
   Size example_ports 0 = Inr 5"
proof -
  have h1: "inputPorts example_unbound 0 = Some \<lparr>referencedPort = None\<rparr>"
    by (simp add: example_unbound_def)
  have h2: "inputPorts example_ports 0 = Some \<lparr>referencedPort = Some 0\<rparr>"
    by (simp add: example_ports_def)
  have "portSize (outputPorts example_ports 0) = 5" by (simp add: example_ports_def)
  then show ?thesis
    using Size_of_input_port [OF h1] Size_of_input_port [OF h2] h1 h2 by simp
qed

section \<open>Properties of the header writer\<close>

lemma find_str_prefix: "(find_str s pat = Some 0) = prefix pat s"
  by (cases s) auto

lemma ShouldWriteFunction_iff:
  "ShouldWriteFunction f = (hasName f \<and> (\<forall>p\<in>set excluded_prefixes. \<not> prefix p (getName f)))"
  by (simp add: ShouldWriteFunction_def Let_def find_str_prefix excluded_prefixes_def)

lemma concat_map_if_filter:
  "concat (map (\<lambda>x. if P x then g x else []) xs) = concat (map g (filter P xs))"
  by (induction xs) simp_all

text \<open>
  Claim C8. The text written by \<^verbatim>\<open>WriteModuleHeader\<close> is the header comment, the type
  definitions, and then one signature for each function of the module, in order, that has
  a name not beginning with \<^verbatim>\<open>_Node__\<close>, \<^verbatim>\<open>llvm.\<close>, \<^verbatim>\<open>clock_gettime\<close>, \<^verbatim>\<open>cblas\<close>, \<^verbatim>\<open>printf\<close> or
  \<^verbatim>\<open>_\<close>, and for no other function: \<^verbatim>\<open>ShouldWriteFunction\<close> is true of exactly these
  functions, and the signature of a named function is its return type, its name and its
  argument types.
\<close>

theorem WriteModuleHeader_exported:
  "WriteModuleHeader m =
     header_comment m @ header_types m @ functions_title
     @ concat (map (\<lambda>f. WriteFunction m f @ newline @ newline)
         (filter (\<lambda>f. hasName f \<and> (\<forall>p\<in>set excluded_prefixes. \<not> prefix p (getName f)))
            (moduleFunctions m)))
     @ header_end \<and>
   (\<forall>f. ShouldWriteFunction f =
      (hasName f \<and> (\<forall>p\<in>set excluded_prefixes. \<not> prefix p (getName f)))) \<and>
   (\<forall>f. hasName f \<longrightarrow>
      (\<exists>comments. WriteFunction m f =
         comments @ WriteLLVMType (getReturnType f) @ '' '' @ getName f @ ''(''
         @ write_separated True (map WriteLLVMType (args f)) @ '');''))"
proof -
  have "header_functions m = functions_title
     @ concat (map (\<lambda>f. WriteFunction m f @ newline @ newline)
         (filter (\<lambda>f. hasName f \<and> (\<forall>p\<in>set excluded_prefixes. \<not> prefix p (getName f)))
            (moduleFunctions m)))"
    unfolding header_functions_def concat_map_if_filter
    by (simp add: ShouldWriteFunction_iff [abs_def])
  then show ?thesis
    by (simp add: WriteModuleHeader_def ShouldWriteFunction_iff WriteFunction_def Let_def)
qed

text \<open>
  The example module: of its six functions only \<^verbatim>\<open>predict\<close> and \<^verbatim>\<open>reset\<close> get a signature.
\<close>

lemma to_string_32: "to_string 32 = ''32''"
  by code_simp

theorem WriteModuleHeader_exported_witness:
  "WriteModuleHeader example_module =
     header_comment example_module @ header_types example_module @ functions_title
     @ ''void predict(double*, int32_t);'' @ newline @ newline
     @ ''void reset(double*, int32_t);'' @ newline @ newline
     @ header_end \<and>
   \<not> ShouldWriteFunction (example_function True ''_Node__7'') \<and>
   \<not> ShouldWriteFunction (example_function True ''llvm.ctpop.i64'') \<and>
   \<not> ShouldWriteFunction (example_function False []) \<and>
   \<not> ShouldWriteFunction (example_function True ''printf'')"
  using WriteModuleHeader_exported [of example_module]
  by (simp add: example_module_def example_function_def excluded_prefixes_def WriteFunction_def
      to_string_32)

section \<open>Properties of the nodes\<close>

text \<open>
  Claim C9. For every \<^verbatim>\<open>BinaryReceptiveFieldMatrixNode\<close> and every \<^verbatim>\<open>BinaryXnorNode\<close>, and
  for every archiver, \<^verbatim>\<open>Compute\<close>, \<^verbatim>\<open>WriteToArchive\<close> and \<^verbatim>\<open>ReadFromArchive\<close> raise a
  \<^verbatim>\<open>LogicException\<close> with the code \<^verbatim>\<open>notImplemented\<close>.
\<close>

theorem interpreted_methods_notImplemented:
  "RFM_Compute rfm = Inl (LogicException notImplemented) \<and>
   RFM_WriteToArchive rfm archiver = Inl (LogicException notImplemented) \<and>
   RFM_ReadFromArchive rfm unarchiver = Inl (LogicException notImplemented) \<and>
   Xnor_Compute xnor = Inl (LogicException notImplemented) \<and>
   Xnor_WriteToArchive xnor archiver' = Inl (LogicException notImplemented) \<and>
   Xnor_ReadFromArchive xnor unarchiver' = Inl (LogicException notImplemented)"
  by (simp add: RFM_Compute_def RFM_WriteToArchive_def RFM_ReadFromArchive_def
      Xnor_Compute_def Xnor_WriteToArchive_def Xnor_ReadFromArchive_def)

subsection \<open>The emitted code of well-formed nodes\<close>

lemma i32_id: "INT_MIN \<le> x \<Longrightarrow> x \<le> INT_MAX \<Longrightarrow> i32 x = x"
  unfolding i32_def INT_MIN_def INT_MAX_def
  by (rule signed_take_bit_int_eq_self) simp_all

lemma to_int_id: "INT_MIN \<le> x \<Longrightarrow> x \<le> INT_MAX \<Longrightarrow> to_int x = Inr x"
  by (simp add: to_int_def)

lemma bind_fault_Inr [simp]: "bind_fault (Inr x) f = f x"
  by (simp add: bind_fault_def)

lemma bind_fault_Inl [simp]: "bind_fault (Inl e) f = Inl e"
  by (simp add: bind_fault_def)











lemma ceil_blocks:
  assumes "1 \<le> (b::int)"
  shows "(n - 1) div b + 1 = (if n mod b = 0 then n div b else n div b + 1)"
proof -
  define q where "q = n div b"
  define r where "r = n mod b"
  have n: "n = b * q + r" by (simp add: q_def r_def)
  have r: "0 \<le> r" "r < b" using assms by (simp_all add: r_def)
  show ?thesis
  proof (cases "r = 0")
    case True
    have "n - 1 = b * (q - 1) + (b - 1)" using n True by (simp add: algebra_simps)
    moreover have "0 \<le> b - 1" "b - 1 < b" using assms by simp_all
    ultimately have "(n - 1) div b = q - 1" by (rule int_div_pos_eq)
    then show ?thesis using True by (simp add: q_def r_def)
  next
    case False
    have "n - 1 = b * q + (r - 1)" using n by simp
    moreover have "0 \<le> r - 1" "r - 1 < b" using r False by simp_all
    ultimately have "(n - 1) div b = q" by (rule int_div_pos_eq)
    then show ?thesis using False by (simp add: q_def r_def)
  qed
qed


lemma run_pairs_snoc: "run_pairs body (xs @ [(f, i)]) m = body f i (run_pairs body xs m)"
  by (simp add: run_pairs_def)

lemma run_pairs_Nil: "run_pairs body [] m = m"
  by (simp add: run_pairs_def)

lemma run_pairs_ro:
  assumes "\<And>f i m. i \<in> I \<Longrightarrow> ro (body f i m) = ro m"
    and "snd ` set xs \<subseteq> I"
  shows "ro (run_pairs body xs m) = ro m"
  using assms(2)
proof (induction xs rule: rev_induct)
  case Nil
  then show ?case by (simp add: run_pairs_Nil)
next
  case (snoc x xs)
  obtain f i where x: "x = (f, i)" by (cases x)
  have "i \<in> I" using snoc.prems x by simp
  then have "ro (body f i (run_pairs body xs m)) = ro (run_pairs body xs m)" by (rule assms(1))
  moreover have "ro (run_pairs body xs m) = ro m" using snoc by simp
  ultimately show ?case by (simp add: x run_pairs_snoc)
qed

text \<open>The value of an observed cell after a run: written by the body whose row holds it.\<close>

lemma run_pairs_written:
  assumes ro: "\<And>f i m. i \<in> I \<Longrightarrow> ro (body f i m) = ro m"
    and wr: "\<And>f f' i m m' k. i \<in> I \<Longrightarrow> k \<in> rows i \<Longrightarrow> ro m = ro m' \<Longrightarrow>
               obs (body f i m) k = obs (body f' i m') k"
    and fr: "\<And>f i m k. i \<in> I \<Longrightarrow> k \<notin> rows i \<Longrightarrow> obs (body f i m) k = obs m k"
    and dj: "\<And>i j. i \<in> I \<Longrightarrow> j \<in> I \<Longrightarrow> i \<noteq> j \<Longrightarrow> rows i \<inter> rows j = {}"
    and xs: "snd ` set xs \<subseteq> I"
    and j: "j \<in> snd ` set xs" "k \<in> rows j"
  shows "obs (run_pairs body xs m) k = obs (body 0 j m) k"
  using xs j(1)
proof (induction xs rule: rev_induct)
  case Nil
  then show ?case by simp
next
  case (snoc x xs)
  obtain f i where x: "x = (f, i)" by (cases x)
  have iI: "i \<in> I" and xsI: "snd ` set xs \<subseteq> I" using snoc.prems(1) x by simp_all
  have ro': "ro (run_pairs body xs m) = ro m" using ro xsI by (rule run_pairs_ro)
  have jI: "j \<in> I" using snoc.prems by blast
  show ?case
  proof (cases "i = j")
    case True
    have "obs (body f i (run_pairs body xs m)) k = obs (body 0 i m) k"
      using iI j(2) True ro' by (intro wr) simp_all
    then show ?thesis by (simp add: x run_pairs_snoc True)
  next
    case False
    then have "k \<notin> rows i" using dj [OF iI jI] j(2) by blast
    then have "obs (body f i (run_pairs body xs m)) k = obs (run_pairs body xs m) k"
      using iI by (simp add: fr)
    moreover have "j \<in> snd ` set xs" using snoc.prems(2) False x by auto
    ultimately show ?thesis using snoc.IH [OF xsI] by (simp add: x run_pairs_snoc)
  qed
qed

lemma run_pairs_untouched:
  assumes fr: "\<And>f i m k. i \<in> I \<Longrightarrow> k \<notin> rows i \<Longrightarrow> obs (body f i m) k = obs m k"
    and xs: "snd ` set xs \<subseteq> I"
    and k: "\<And>j. j \<in> snd ` set xs \<Longrightarrow> k \<notin> rows j"
  shows "obs (run_pairs body xs m) k = obs m k"
  using xs k
proof (induction xs rule: rev_induct)
  case Nil
  then show ?case by (simp add: run_pairs_Nil)
next
  case (snoc x xs)
  obtain f i where x: "x = (f, i)" by (cases x)
  have iI: "i \<in> I" and xsI: "snd ` set xs \<subseteq> I" using snoc.prems(1) x by simp_all
  have "k \<notin> rows i" using snoc.prems(2) [of i] x by simp
  then have "obs (body f i (run_pairs body xs m)) k = obs (run_pairs body xs m) k"
    using iI by (simp add: fr)
  moreover have "obs (run_pairs body xs m) k = obs m k"
    using xsI snoc.prems(2) by (simp add: snoc.IH)
  ultimately show ?case by (simp add: x run_pairs_snoc)
qed

lemma run_pairs_obs_eq:
  assumes ro: "\<And>f i m. i \<in> I \<Longrightarrow> ro (body f i m) = ro m"
    and wr: "\<And>f f' i m m' k. i \<in> I \<Longrightarrow> k \<in> rows i \<Longrightarrow> ro m = ro m' \<Longrightarrow>
               obs (body f i m) k = obs (body f' i m') k"
    and fr: "\<And>f i m k. i \<in> I \<Longrightarrow> k \<notin> rows i \<Longrightarrow> obs (body f i m) k = obs m k"
    and dj: "\<And>i j. i \<in> I \<Longrightarrow> j \<in> I \<Longrightarrow> i \<noteq> j \<Longrightarrow> rows i \<inter> rows j = {}"
    and xs: "snd ` set xs \<subseteq> I" and ys: "snd ` set ys = snd ` set xs"
  shows "obs (run_pairs body xs m) k = obs (run_pairs body ys m) k"
proof (cases "\<exists>j\<in>snd ` set xs. k \<in> rows j")
  case True
  then obtain j where j: "j \<in> snd ` set xs" "k \<in> rows j" by blast
  have ys': "snd ` set ys \<subseteq> I" using xs ys by simp
  have j': "j \<in> snd ` set ys" using j ys by simp
  have "obs (run_pairs body xs m) k = obs (body 0 j m) k"
    using ro wr fr dj xs j by (rule run_pairs_written [where ro = ro and rows = rows and I = I])
  moreover have "obs (run_pairs body ys m) k = obs (body 0 j m) k"
    using ro wr fr dj ys' j' j(2) by (rule run_pairs_written [where ro = ro and rows = rows and I = I])
  ultimately show ?thesis by simp
next
  case False
  have ys': "snd ` set ys \<subseteq> I" using xs ys by simp
  have nx: "\<And>j. j \<in> snd ` set xs \<Longrightarrow> k \<notin> rows j" using False by blast
  have ny: "\<And>j. j \<in> snd ` set ys \<Longrightarrow> k \<notin> rows j" using False ys by blast
  have "obs (run_pairs body xs m) k = obs m k"
    using fr xs nx by (rule run_pairs_untouched)
  moreover have "obs (run_pairs body ys m) k = obs m k"
    using fr ys' ny by (rule run_pairs_untouched)
  ultimately show ?thesis by simp
qed

lemma for_loop_snoc: "lo \<le> hi \<Longrightarrow> for_loop lo (hi + 1) body m = body hi (for_loop lo hi body m)"
proof -
  assume "lo \<le> hi"
  then have "[lo..hi] = [lo..hi - 1] @ [hi]" by (simp add: upto_rec2)
  then show ?thesis by (simp add: for_loop_def)
qed

lemma for_loop_empty: "hi \<le> lo \<Longrightarrow> for_loop lo hi body m = m"
  by (simp add: for_loop_def)

lemma set_upto_less: "set [lo..hi - 1] = {lo..<hi}"
  by auto

lemma for_loop_invariant:
  assumes "P m" and "\<And>i s. lo \<le> i \<Longrightarrow> i < hi \<Longrightarrow> P s \<Longrightarrow> P (body i s)"
  shows "P (for_loop lo hi body m)"
proof -
  have "\<And>s. P s \<Longrightarrow> set xs \<subseteq> {lo..<hi} \<Longrightarrow> P (fold body xs s)" for xs
  proof (induction xs)
    case Nil
    then show ?case by simp
  next
    case (Cons x xs)
    then show ?case using assms(2) [of x] by simp
  qed
  from this [of m "[lo..hi - 1]"] show ?thesis
    using assms(1) unfolding for_loop_def set_upto_less by simp
qed

lemma for_loop_rel:
  assumes step: "\<And>x T s1 s2. lo \<le> x \<Longrightarrow> x < hi \<Longrightarrow> R T s1 s2 \<Longrightarrow> R (T \<union> W x) (f1 x s1) (f2 x s2)"
    and "R T m1 m2"
  shows "R (T \<union> (\<Union>x\<in>{lo..<hi}. W x)) (for_loop lo hi f1 m1) (for_loop lo hi f2 m2)"
proof -
  have "\<And>T s1 s2. R T s1 s2 \<Longrightarrow> set xs \<subseteq> {lo..<hi} \<Longrightarrow>
      R (T \<union> (\<Union>x\<in>set xs. W x)) (fold f1 xs s1) (fold f2 xs s2)" for xs
  proof (induction xs)
    case Nil
    then show ?case by simp
  next
    case (Cons x xs)
    have "R (T \<union> W x) (f1 x s1) (f2 x s2)" using Cons.prems by (intro step) simp_all
    then have "R (T \<union> W x \<union> (\<Union>y\<in>set xs. W y)) (fold f1 xs (f1 x s1)) (fold f2 xs (f2 x s2))"
      using Cons.prems by (intro Cons.IH) simp_all
    moreover have "T \<union> W x \<union> (\<Union>y\<in>set xs. W y) = T \<union> (\<Union>y\<in>set (x # xs). W y)" by auto
    ultimately show ?case by simp
  qed
  from this [of T m1 m2 "[lo..hi - 1]"] assms(2)
  show ?thesis unfolding for_loop_def set_upto_less by simp
qed

lemma PointerOffset_simps [simp]:
  "fst (PointerOffset p k) = fst p" "snd (PointerOffset p k) = snd p + k"
  by (simp_all add: PointerOffset_def)

lemma PointerOffset_eq: "(PointerOffset p k = PointerOffset p k') = (k = k')"
  by (auto simp: PointerOffset_def)

lemma LoadRow_frame:
  fixes m m' :: "('v, 'w::len) memory"
  assumes m': "m' = LoadRow pIn inL i outL cp scr m"
  shows "packedCells m' = packedCells m \<and> vectorCells m' = vectorCells m \<and> intCells m' = intCells m \<and>
         trapped m' = (trapped m \<or> division_undefined i (GetActiveSize outL 1)) \<and>
         (\<forall>p. fst p \<noteq> fst scr \<longrightarrow> realCells m' p = realCells m p)"
proof -
  define m0 where "m0 = m\<lparr>trapped := trapped m \<or> division_undefined i (GetActiveSize outL 1)\<rparr>"
  define P where "P = (\<lambda>s :: ('v, 'w) memory. packedCells s = packedCells m0 \<and> vectorCells s = vectorCells m0 \<and>
     intCells s = intCells m0 \<and> trapped s = trapped m0 \<and>
     (\<forall>p. fst p \<noteq> fst scr \<longrightarrow> realCells s p = realCells m0 p))"
  have P0: "P m0" by (simp add: P_def)
  have "P m'"
    unfolding m' LoadRow_def Let_def m0_def [symmetric]
    apply (rule for_loop_invariant [where P = P, OF P0])
    apply (rule for_loop_invariant [where P = P], assumption)
    apply (rule for_loop_invariant [where P = P], assumption)
    apply (auto simp: P_def PointerOffset_def)
    done
  then show ?thesis by (simp add: P_def m0_def)
qed

lemma LoadRow_rel:
  fixes m1 m2 :: "('v, 'w::len) memory"
  assumes r1: "fst scr1 \<noteq> fst pIn" and r2: "fst scr2 \<noteq> fst pIn"
    and agree: "\<forall>p. fst p = fst pIn \<longrightarrow> realCells m1 p = realCells m2 p"
    and fs: "fs = int_of_size_t (receptiveField cp)"
    and nc: "nc = GetActiveSize inL 2"
  shows "\<forall>t\<in>(\<Union>r\<in>{0..<fs}. \<Union>c\<in>{0..<fs}. \<Union>ch\<in>{0..<nc}. {tensor_offset [fs, fs, nc] [r, c, ch]}).
           realCells (LoadRow pIn inL i outL cp scr1 m1) (PointerOffset scr1 t) =
           realCells (LoadRow pIn inL i outL cp scr2 m2) (PointerOffset scr2 t)"
proof -
  define R where "R = (\<lambda>T (s1 :: ('v, 'w) memory) (s2 :: ('v, 'w) memory).
     (\<forall>p. fst p = fst pIn \<longrightarrow> realCells s1 p = realCells s2 p) \<and>
     (\<forall>t\<in>T. realCells s1 (PointerOffset scr1 t) = realCells s2 (PointerOffset scr2 t)))"
  define d where "d = division_undefined i (GetActiveSize outL 1)"
  have R0: "R {} (m1\<lparr>trapped := trapped m1 \<or> d\<rparr>) (m2\<lparr>trapped := trapped m2 \<or> d\<rparr>)"
    using agree unfolding R_def by simp
  have step: "R (T \<union> {a})
        (s1\<lparr>realCells := (realCells s1)(PointerOffset scr1 a := realCells s1 (PointerOffset pIn b))\<rparr>)
        (s2\<lparr>realCells := (realCells s2)(PointerOffset scr2 a := realCells s2 (PointerOffset pIn b))\<rparr>)"
    if R: "R T s1 s2" for T s1 s2 a b
  proof -
    have v: "realCells s1 (PointerOffset pIn b) = realCells s2 (PointerOffset pIn b)"
      using R unfolding R_def by (metis PointerOffset_simps(1))
    have n1: "\<And>p. fst p = fst pIn \<Longrightarrow> p \<noteq> PointerOffset scr1 a" using r1 by auto
    have n2: "\<And>p. fst p = fst pIn \<Longrightarrow> p \<noteq> PointerOffset scr2 a" using r2 by auto
    have old: "\<And>t. t \<in> T \<Longrightarrow> realCells s1 (PointerOffset scr1 t) = realCells s2 (PointerOffset scr2 t)"
      using R unfolding R_def by blast
    have inp: "\<And>p. fst p = fst pIn \<Longrightarrow> realCells s1 p = realCells s2 p"
      using R unfolding R_def by blast
    show ?thesis
      unfolding R_def
    proof (intro conjI allI ballI impI)
      fix p :: pointer assume "fst p = fst pIn"
      then show "realCells (s1\<lparr>realCells := (realCells s1)(PointerOffset scr1 a := realCells s1 (PointerOffset pIn b))\<rparr>) p =
        realCells (s2\<lparr>realCells := (realCells s2)(PointerOffset scr2 a := realCells s2 (PointerOffset pIn b))\<rparr>) p"
        using n1 n2 inp by simp
    next
      fix t assume "t \<in> T \<union> {a}"
      then show "realCells (s1\<lparr>realCells := (realCells s1)(PointerOffset scr1 a := realCells s1 (PointerOffset pIn b))\<rparr>) (PointerOffset scr1 t) =
        realCells (s2\<lparr>realCells := (realCells s2)(PointerOffset scr2 a := realCells s2 (PointerOffset pIn b))\<rparr>) (PointerOffset scr2 t)"
        using v old by (cases "t = a") (simp_all add: PointerOffset_eq)
    qed
  qed
  have "R ({} \<union> (\<Union>r\<in>{0..<fs}. \<Union>c\<in>{0..<fs}. \<Union>ch\<in>{0..<nc}. {tensor_offset [fs, fs, nc] [r, c, ch]}))
          (LoadRow pIn inL i outL cp scr1 m1) (LoadRow pIn inL i outL cp scr2 m2)"
    unfolding LoadRow_def Let_def fs [symmetric] nc [symmetric] d_def [symmetric]
    apply (rule for_loop_rel [where R = R, OF _ R0])
    apply (rule for_loop_rel [where R = R])
     apply (rule for_loop_rel [where R = R])
      apply (rule step)
      apply assumption+
    done
  then show ?thesis unfolding R_def by simp
qed

lemma rt_add_id: "INT_MIN \<le> a + b \<Longrightarrow> a + b \<le> INT_MAX \<Longrightarrow> rt_add a b = a + b"
  by (simp add: rt_add_def i32_id)

lemma rt_mul_id: "INT_MIN \<le> a * b \<Longrightarrow> a * b \<le> INT_MAX \<Longrightarrow> rt_mul a b = a * b"
  by (simp add: rt_mul_def i32_id)

lemma rt_mul_add_id:
  assumes "0 \<le> a" "0 \<le> b" "0 \<le> c" "a * b + c \<le> INT_MAX"
  shows "rt_add (rt_mul a b) c = a * b + c"
proof -
  have p: "0 \<le> a * b" using assms by simp
  have "INT_MIN \<le> a * b" "a * b \<le> INT_MAX" using p assms unfolding INT_MIN_def by linarith+
  then have "rt_mul a b = a * b" by (rule rt_mul_id)
  moreover have "INT_MIN \<le> a * b + c" using p assms unfolding INT_MIN_def by linarith
  then have "rt_add (a * b) c = a * b + c" using assms(4) by (rule rt_add_id)
  ultimately show ?thesis by simp
qed

lemma tensor_offset_3:
  "tensor_offset [d0, d1, d2] [i, j, k] =
     rt_add (rt_mul (rt_add (rt_mul (rt_add (rt_mul 0 d0) i) d1) j) d2) k"
  by (simp add: tensor_offset_def)

lemma tensor_offset_value:
  assumes "0 \<le> r" "r < fs" "0 \<le> c" "c < fs" "0 \<le> ch" "ch < nc" "fs * fs * nc \<le> INT_MAX"
  shows "tensor_offset [fs, fs, nc] [r, c, ch] = (r * fs + c) * nc + ch"
proof -
  have fs: "0 < fs" and nc: "0 < nc" using assms by simp_all
  have b1: "r * fs + c < fs * fs"
  proof -
    have "r * fs + c < r * fs + fs" using assms by simp
    also have "\<dots> = (r + 1) * fs" by (simp add: algebra_simps)
    also have "\<dots> \<le> fs * fs" using assms by (intro mult_right_mono) simp_all
    finally show ?thesis .
  qed
  have b2: "(r * fs + c) * nc + ch < fs * fs * nc"
  proof -
    have "(r * fs + c) * nc + ch < (r * fs + c) * nc + nc" using assms by simp
    also have "\<dots> = (r * fs + c + 1) * nc" by (simp add: algebra_simps)
    also have "\<dots> \<le> fs * fs * nc" using b1 nc by (intro mult_right_mono) simp_all
    finally show ?thesis .
  qed
  have "fs * fs * 1 \<le> fs * fs * nc" using fs nc by (intro mult_left_mono) simp_all
  then have b3: "fs * fs \<le> INT_MAX" using assms(7) by linarith
  have z: "rt_mul 0 fs = 0" by (simp add: rt_mul_def i32_def)
  have "fs * 1 \<le> fs * fs" using fs by (intro mult_left_mono) simp_all
  then have "r \<le> INT_MAX" using assms(2) b3 by linarith
  moreover have "INT_MIN \<le> r" using assms(1) unfolding INT_MIN_def by linarith
  ultimately have a0: "rt_add 0 r = r" using rt_add_id [of 0 r] by simp
  have a1: "rt_add (rt_mul r fs) c = r * fs + c"
    using assms b1 b3 fs by (intro rt_mul_add_id) simp_all
  have "0 \<le> r * fs + c" using assms by simp
  then have a2: "rt_add (rt_mul (r * fs + c) nc) ch = (r * fs + c) * nc + ch"
    using assms b2 nc by (intro rt_mul_add_id) simp_all
  show ?thesis by (simp add: tensor_offset_3 z a0 a1 a2)
qed

lemma tensor_cover:
  assumes "1 \<le> fs" "1 \<le> nc" "fs * fs * nc \<le> INT_MAX" "0 \<le> t" "t < fs * fs * nc"
  shows "t \<in> (\<Union>r\<in>{0..<fs}. \<Union>c\<in>{0..<fs}. \<Union>ch\<in>{0..<nc}. {tensor_offset [fs, fs, nc] [r, c, ch]})"
proof -
  define ch where "ch = t mod nc"
  define u where "u = t div nc"
  define c where "c = u mod fs"
  define r where "r = u div fs"
  have t: "t = u * nc + ch" by (simp add: u_def ch_def)
  have u: "u = r * fs + c" by (simp add: r_def c_def)
  have ch: "0 \<le> ch" "ch < nc" using assms by (simp_all add: ch_def)
  have c: "0 \<le> c" "c < fs" using assms by (simp_all add: c_def)
  have u0: "0 \<le> u" using assms by (simp add: u_def pos_imp_zdiv_nonneg_iff)
  have r0: "0 \<le> r" using assms u0 by (simp add: r_def pos_imp_zdiv_nonneg_iff)
  have "u < fs * fs"
  proof (rule ccontr)
    assume "\<not> u < fs * fs"
    then have "fs * fs * nc \<le> u * nc" using assms(2) by (intro mult_right_mono) simp_all
    then show False using t ch assms(5) by linarith
  qed
  have rlt: "r < fs"
  proof (rule ccontr)
    assume "\<not> r < fs"
    then have "fs * fs \<le> r * fs" using assms(1) by (intro mult_right_mono) simp_all
    then show False using u c \<open>u < fs * fs\<close> by linarith
  qed
  then have "r < fs" .
  then have "tensor_offset [fs, fs, nc] [r, c, ch] = (r * fs + c) * nc + ch"
    using r0 c ch assms(3) by (intro tensor_offset_value) simp_all
  then have "tensor_offset [fs, fs, nc] [r, c, ch] = t" using t u by simp
  moreover have "r \<in> {0..<fs}" "c \<in> {0..<fs}" "ch \<in> {0..<nc}" using r0 rlt c ch by simp_all
  ultimately show ?thesis by blast
qed

lemma pack_bits_cong:
  fixes m1 m2 :: "('v, 'w::len) memory"
  assumes "\<And>bi. 0 \<le> bi \<Longrightarrow> bi < cnt \<Longrightarrow>
     realCells m1 (PointerOffset r1 (idx1 bi)) = realCells m2 (PointerOffset r2 (idx2 bi))"
  shows "pack_bits g m1 r1 idx1 cnt = pack_bits g m2 r2 idx2 cnt"
proof -
  have "\<And>acc. set xs \<subseteq> {0..<cnt} \<Longrightarrow>
    fold (\<lambda>bitIndex blockValue. blockValue OR push_bit (nat bitIndex)
        (if g (realCells m1 (PointerOffset r1 (idx1 bitIndex))) then 1 else 0)) xs acc =
    fold (\<lambda>bitIndex blockValue. blockValue OR push_bit (nat bitIndex)
        (if g (realCells m2 (PointerOffset r2 (idx2 bitIndex))) then 1 else 0)) xs (acc :: 'w word)" for xs
  proof (induction xs)
    case Nil
    then show ?case by simp
  next
    case (Cons x xs)
    then show ?case using assms [of x] by simp
  qed
  from this [of "[0..cnt - 1]"] show ?thesis
    unfolding pack_bits_def set_upto_less by simp
qed

lemma fold_store:
  fixes V :: "'x \<Rightarrow> ('v, 'w::len) memory \<Rightarrow> 'w word" and A :: "'x \<Rightarrow> pointer"
  assumes V: "\<And>x s1 s2. realCells s1 = realCells s2 \<Longrightarrow> V x s1 = V x s2"
  defines "F \<equiv> (\<lambda>x s. s\<lparr>packedCells := (packedCells s)(A x := V x s)\<rparr>)"
  shows "realCells (fold F xs s) = realCells s \<and> vectorCells (fold F xs s) = vectorCells s \<and>
         intCells (fold F xs s) = intCells s \<and> trapped (fold F xs s) = trapped s \<and>
         (\<forall>q. q \<notin> A ` set xs \<longrightarrow> packedCells (fold F xs s) q = packedCells s q) \<and>
         (distinct (map A xs) \<longrightarrow> (\<forall>x\<in>set xs. packedCells (fold F xs s) (A x) = V x s))"
proof (induction xs arbitrary: s)
  case Nil
  then show ?case by simp
next
  case (Cons x xs)
  let ?s = "F x s"
  have rc: "realCells ?s = realCells s" by (simp add: F_def)
  have V': "\<And>y. V y ?s = V y s" using rc by (rule V)
  have pc: "\<And>q. q \<noteq> A x \<Longrightarrow> packedCells ?s q = packedCells s q" by (simp add: F_def)
  have px: "packedCells ?s (A x) = V x s" by (simp add: F_def)
  have o: "vectorCells ?s = vectorCells s" "intCells ?s = intCells s" "trapped ?s = trapped s"
    by (simp_all add: F_def)
  note IH = Cons.IH [of ?s]
  have IHq: "\<And>q. q \<notin> A ` set xs \<Longrightarrow> packedCells (fold F xs ?s) q = packedCells ?s q"
    using IH by blast
  have IHx: "\<And>y. distinct (map A xs) \<Longrightarrow> y \<in> set xs \<Longrightarrow> packedCells (fold F xs ?s) (A y) = V y ?s"
    using IH by blast
  have IHo: "realCells (fold F xs ?s) = realCells ?s" "vectorCells (fold F xs ?s) = vectorCells ?s"
    "intCells (fold F xs ?s) = intCells ?s" "trapped (fold F xs ?s) = trapped ?s"
    using IH by blast+
  show ?case
  proof (intro conjI allI impI ballI)
    show "realCells (fold F (x # xs) s) = realCells s" using IHo rc by simp
    show "vectorCells (fold F (x # xs) s) = vectorCells s" using IHo o by simp
    show "intCells (fold F (x # xs) s) = intCells s" using IHo o by simp
    show "trapped (fold F (x # xs) s) = trapped s" using IHo o by simp
  next
    fix q assume "q \<notin> A ` set (x # xs)"
    then have "q \<noteq> A x" "q \<notin> A ` set xs" by auto
    then show "packedCells (fold F (x # xs) s) q = packedCells s q" using IHq pc by simp
  next
    fix y assume d: "distinct (map A (x # xs))" and y: "y \<in> set (x # xs)"
    show "packedCells (fold F (x # xs) s) (A y) = V y s"
    proof (cases "y \<in> set xs")
      case True
      then show ?thesis using IHx [of y] d V' by simp
    next
      case False
      then have "y = x" using y by simp
      moreover have "A x \<notin> A ` set xs" using d by simp
      ultimately show ?thesis using IHq [of "A x"] px by simp
    qed
  qed
qed


lemma distinct_map_PointerOffset: "distinct (map (PointerOffset p) [lo..hi])"
  by (simp add: distinct_map inj_on_def PointerOffset_eq)

lemma CompressRow_code_effect:
  fixes m :: "('v, 'w::len) memory"
  assumes nv: "1 \<le> nv" "nv \<le> INT_MAX" and bits: "1 \<le> bits"
    and m': "m' = CompressRow_code g bits nv scr out m"
  shows "realCells m' = realCells m" "vectorCells m' = vectorCells m" "intCells m' = intCells m"
    "trapped m' = trapped m"
    "\<And>q. q \<notin> PointerOffset out ` {0..<(nv - 1) div bits + 1} \<Longrightarrow> packedCells m' q = packedCells m q"
    "\<And>b. 0 \<le> b \<Longrightarrow> b < nv div bits \<Longrightarrow>
       packedCells m' (PointerOffset out b) = pack_bits g m scr (\<lambda>bi. b * bits + bi) bits"
    "nv mod bits \<noteq> 0 \<Longrightarrow>
       packedCells m' (PointerOffset out (nv div bits)) =
       pack_bits g m scr (\<lambda>bi. nv div bits * bits + bi) (nv mod bits)"
proof -
  define nq where "nq = nv div bits"
  define nr where "nr = nv mod bits"
  define V where "V = (\<lambda>b (s :: ('v, 'w) memory). pack_bits g s scr (\<lambda>bi. rt_add (rt_mul b bits) bi) bits)"
  define F where "F = (\<lambda>b (s :: ('v, 'w) memory). s\<lparr>packedCells := (packedCells s)(PointerOffset out b := V b s)\<rparr>)"
  define m1 where "m1 = for_loop 0 nq F m"
  have Vc: "\<And>x s1 s2. realCells s1 = realCells s2 \<Longrightarrow> V x s1 = V x s2"
    unfolding V_def by (rule pack_bits_cong) simp
  note fs = fold_store [of V "PointerOffset out" "[0..nq - 1]" m, OF Vc, folded F_def]
  have m1: "realCells m1 = realCells m" "vectorCells m1 = vectorCells m" "intCells m1 = intCells m"
    "trapped m1 = trapped m"
    using fs by (simp_all add: m1_def for_loop_def)
  have m1q: "\<And>q. q \<notin> PointerOffset out ` {0..<nq} \<Longrightarrow> packedCells m1 q = packedCells m q"
    using fs unfolding m1_def for_loop_def set_upto_less by blast
  have m1b: "\<And>b. 0 \<le> b \<Longrightarrow> b < nq \<Longrightarrow> packedCells m1 (PointerOffset out b) = V b m"
    using fs distinct_map_PointerOffset [of out 0 "nq - 1"]
    unfolding m1_def for_loop_def set_upto_less by simp
  have blocks: "(nv - 1) div bits + 1 = (if nr = 0 then nq else nq + 1)"
    unfolding nq_def nr_def using bits by (rule ceil_blocks)
  have nq0: "0 \<le> nq" using nv bits by (simp add: nq_def pos_imp_zdiv_nonneg_iff)
  have nvq: "nv = nq * bits + nr" by (simp add: nq_def nr_def)
  have nr: "0 \<le> nr" "nr < bits" using bits by (simp_all add: nr_def)
  have Vid: "V b m = pack_bits g m scr (\<lambda>bi. b * bits + bi) bits" if b: "0 \<le> b" "b < nq" for b
    unfolding V_def
  proof (rule pack_bits_cong)
    fix bi assume bi: "0 \<le> bi" "bi < bits"
    have "(b + 1) * bits \<le> nq * bits" using b bits by (intro mult_right_mono) simp_all
    then have "b * bits + bi < nv" using bi nvq nr by (simp add: algebra_simps)
    then have "rt_add (rt_mul b bits) bi = b * bits + bi"
      using b bits bi nv by (intro rt_mul_add_id) simp_all
    then show "realCells m (PointerOffset scr (rt_add (rt_mul b bits) bi)) =
      realCells m (PointerOffset scr (b * bits + bi))" by simp
  qed
  have m'': "m' = (if nr \<noteq> 0
      then m1\<lparr>packedCells := (packedCells m1)(PointerOffset out nq := pack_bits g m1 scr (\<lambda>bi. nq * bits + bi) nr)\<rparr>
      else m1)"
    unfolding m' CompressRow_code_def Let_def nq_def nr_def m1_def F_def V_def by simp
  show "realCells m' = realCells m" "vectorCells m' = vectorCells m" "intCells m' = intCells m"
    "trapped m' = trapped m"
    using m1 by (simp_all add: m'')
  show "packedCells m' q = packedCells m q" if "q \<notin> PointerOffset out ` {0..<(nv - 1) div bits + 1}" for q
  proof -
    have "q \<notin> PointerOffset out ` {0..<nq}" using that blocks by (auto split: if_splits)
    moreover have "nr \<noteq> 0 \<Longrightarrow> q \<noteq> PointerOffset out nq" using that blocks nq0 by auto
    ultimately show ?thesis using m1q by (simp add: m'')
  qed
  show "packedCells m' (PointerOffset out b) = pack_bits g m scr (\<lambda>bi. b * bits + bi) bits"
    if "0 \<le> b" "b < nv div bits" for b
  proof -
    have "b < nq" using that by (simp add: nq_def)
    then have "packedCells m1 (PointerOffset out b) = pack_bits g m scr (\<lambda>bi. b * bits + bi) bits"
      using m1b [of b] Vid [of b] that by simp
    moreover have "PointerOffset out b \<noteq> PointerOffset out nq" using \<open>b < nq\<close> by (simp add: PointerOffset_eq)
    ultimately show ?thesis by (simp add: m'')
  qed
  show "packedCells m' (PointerOffset out (nv div bits)) =
       pack_bits g m scr (\<lambda>bi. nv div bits * bits + bi) (nv mod bits)" if "nv mod bits \<noteq> 0"
  proof -
    have "pack_bits g m1 scr (\<lambda>bi. nq * bits + bi) nr = pack_bits g m scr (\<lambda>bi. nq * bits + bi) nr"
      by (rule pack_bits_cong) (simp add: m1)
    then show ?thesis using that by (simp add: m'' nq_def nr_def)
  qed
qed




lemma run_pairs_Cons: "run_pairs body ((f, i) # xs) m = run_pairs body xs (body f i m)"
  by (simp add: run_pairs_def)

lemma run_tasks_iterations:
  assumes "\<And>k. k < length taskArgs \<Longrightarrow> fst (taskArgs ! k) = pointers"
  shows "run_tasks f taskArgs next schedule m =
         run_pairs (\<lambda>frame. task_body f frame pointers) (iterations taskArgs next schedule) m"
proof (induction schedule arbitrary: "next" m)
  case Nil
  then show ?case by (simp add: run_pairs_Nil)
next
  case (Cons k schedule)
  then show ?case by (simp add: run_pairs_Cons assms fun_upd_def)
qed

lemma iterations_indices:
  assumes "\<And>k. k < length taskArgs \<Longrightarrow>
             count_list schedule k = nat (snd (snd (taskArgs ! k)) - next k)"
  shows "snd ` set (iterations taskArgs next schedule) =
         (\<Union>k\<in>{..<length taskArgs}. {next k..<snd (snd (taskArgs ! k))})"
  using assms
proof (induction schedule arbitrary: "next")
  case Nil
  have "\<And>k. k < length taskArgs \<Longrightarrow> {next k..<snd (snd (taskArgs ! k))} = {}"
    using Nil by fastforce
  then show ?case by simp
next
  case (Cons k schedule)
  show ?case
  proof (cases "k < length taskArgs")
    case False
    have "count_list schedule j = nat (snd (snd (taskArgs ! j)) - next j)" if "j < length taskArgs" for j
      using Cons.prems [OF that] that False by auto
    then have "snd ` set (iterations taskArgs next schedule) =
         (\<Union>k\<in>{..<length taskArgs}. {next k..<snd (snd (taskArgs ! k))})" by (rule Cons.IH)
    then show ?thesis using False by simp
  next
    case True
    define hi where "hi j = snd (snd (taskArgs ! j))" for j
    have c: "count_list (k # schedule) k = nat (hi k - next k)" using Cons.prems [OF True] by (simp add: hi_def)
    then have lt: "next k < hi k" by simp
    define next' where "next' = next(k := next k + 1)"
    have p: "count_list schedule j = nat (hi j - next' j)" if "j < length taskArgs" for j
      using Cons.prems [OF that] c lt by (auto simp: next'_def hi_def)
    have ih: "snd ` set (iterations taskArgs next' schedule) = (\<Union>j\<in>{..<length taskArgs}. {next' j..<hi j})"
      using Cons.IH [of next'] p by (simp add: hi_def)
    have a: "{next k..<hi k} = insert (next k) {next' k..<hi k}" using lt by (auto simp: next'_def)
    have b: "\<And>j. j \<noteq> k \<Longrightarrow> {next j..<hi j} = {next' j..<hi j}" by (simp add: next'_def)
    have "(\<Union>j\<in>{..<length taskArgs}. {next j..<hi j}) =
        insert (next k) (\<Union>j\<in>{..<length taskArgs}. {next' j..<hi j})"
    proof (intro set_eqI iffI)
      fix x assume "x \<in> (\<Union>j\<in>{..<length taskArgs}. {next j..<hi j})"
      then obtain j where j: "j < length taskArgs" "x \<in> {next j..<hi j}" by blast
      show "x \<in> insert (next k) (\<Union>j\<in>{..<length taskArgs}. {next' j..<hi j})"
      proof (cases "j = k")
        case True
        then show ?thesis using j a by blast
      next
        case False
        then show ?thesis using j b [OF False] by blast
      qed
    next
      fix x assume "x \<in> insert (next k) (\<Union>j\<in>{..<length taskArgs}. {next' j..<hi j})"
      then consider "x = next k" | j where "j < length taskArgs" "x \<in> {next' j..<hi j}" by blast
      then show "x \<in> (\<Union>j\<in>{..<length taskArgs}. {next j..<hi j})"
      proof cases
        case 1
        then show ?thesis using True a by blast
      next
        case 2
        show ?thesis
        proof (cases "j = k")
          case True
          then show ?thesis using 2 a by blast
        next
          case False
          then show ?thesis using 2 b [OF False] by blast
        qed
      qed
    qed
    then show ?thesis using True lt ih by (simp add: hi_def next'_def fun_upd_def)
  qed
qed

lemma tiles_from_Union_nth:
  assumes "tiles_from lo hi rs"
  shows "(\<Union>k\<in>{..<length rs}. {fst (rs ! k)..<snd (rs ! k)}) = {lo..<hi}"
proof -
  have "(\<Union>k\<in>{..<length rs}. {fst (rs ! k)..<snd (rs ! k)}) = (\<Union>p\<in>set rs. {fst p..<snd p})"
    unfolding set_conv_nth by blast
  also have "\<dots> = (\<Union>(s, e)\<in>set rs. {s..<e})" by (simp add: case_prod_beta)
  finally show ?thesis using tiles_from_union [OF assms] by simp
qed

lemma for_loop_run_pairs:
  "for_loop lo hi (body f) m = run_pairs body (map (Pair f) [lo..hi - 1]) m"
  by (simp add: for_loop_def run_pairs_def fold_map comp_def)

lemma tasks_run_pairs:
  assumes tiles: "tiles_from 0 N rs"
    and sched: "is_schedule schedule
                  (StartTasks_WaitAll (TaskFunction name code) (map (\<lambda>(s, e). (ptrs, s, e)) rs))"
  shows "\<exists>xs. run schedule (StartTasks_WaitAll (TaskFunction name code)
                  (map (\<lambda>(s, e). (ptrs, s, e)) rs)) m =
              run_pairs (\<lambda>frame. code frame ptrs) xs m \<and> snd ` set xs = {0..<N}"
proof -
  define args where "args = map (\<lambda>(s, e). (ptrs, s, e)) rs"
  define next0 where "next0 = (\<lambda>k. fst (snd (args ! k)))"
  have len: "length args = length rs" by (simp add: args_def)
  have nth: "args ! k = (ptrs, fst (rs ! k), snd (rs ! k))" if "k < length rs" for k
    using that by (simp add: args_def case_prod_beta)
  have p: "fst (args ! k) = ptrs" if "k < length args" for k using that nth len by simp
  have r: "run schedule (StartTasks_WaitAll (TaskFunction name code) args) m =
      run_pairs (\<lambda>frame. task_body (TaskFunction name code) frame ptrs) (iterations args next0 schedule) m"
    unfolding run.simps next0_def using p by (rule run_tasks_iterations)
  have c: "count_list schedule k = nat (snd (snd (args ! k)) - next0 k)" if "k < length args" for k
    using sched that unfolding is_schedule_def args_def [symmetric] next0_def
    by (simp add: list_all_iff)
  have "snd ` set (iterations args next0 schedule) =
      (\<Union>k\<in>{..<length args}. {next0 k..<snd (snd (args ! k))})"
    using c by (rule iterations_indices)
  also have "\<dots> = (\<Union>k\<in>{..<length rs}. {fst (rs ! k)..<snd (rs ! k)})"
    using nth by (simp add: len next0_def)
  also have "\<dots> = {0..<N}" using tiles by (rule tiles_from_Union_nth)
  finally show ?thesis using r unfolding args_def [symmetric] by auto
qed

lemma tasks_equal_loop:
  assumes ro: "\<And>f i m. i \<in> {0..<N} \<Longrightarrow> ro (code f ptrs i m) = ro m"
    and wr: "\<And>f f' i m m' k. i \<in> {0..<N} \<Longrightarrow> k \<in> rows i \<Longrightarrow> ro m = ro m' \<Longrightarrow>
               obs (code f ptrs i m) k = obs (code f' ptrs i m') k"
    and fr: "\<And>f i m k. i \<in> {0..<N} \<Longrightarrow> k \<notin> rows i \<Longrightarrow> obs (code f ptrs i m) k = obs m k"
    and dj: "\<And>i j. i \<in> {0..<N} \<Longrightarrow> j \<in> {0..<N} \<Longrightarrow> i \<noteq> j \<Longrightarrow> rows i \<inter> rows j = {}"
    and tiles: "tiles_from 0 N rs"
    and sched: "is_schedule schedule
                  (StartTasks_WaitAll (TaskFunction name code) (map (\<lambda>(s, e). (ptrs, s, e)) rs))"
  shows "obs (run schedule (StartTasks_WaitAll (TaskFunction name code)
                  (map (\<lambda>(s, e). (ptrs, s, e)) rs)) m) k =
         obs (run [] (For_count N (code 0 ptrs)) m) k"
    and "ro (run schedule (StartTasks_WaitAll (TaskFunction name code)
                  (map (\<lambda>(s, e). (ptrs, s, e)) rs)) m) =
         ro (run [] (For_count N (code 0 ptrs)) m)"
proof -
  define body where "body = (\<lambda>frame. code frame ptrs)"
  obtain xs where xs: "run schedule (StartTasks_WaitAll (TaskFunction name code)
                  (map (\<lambda>(s, e). (ptrs, s, e)) rs)) m = run_pairs body xs m" "snd ` set xs = {0..<N}"
    using tasks_run_pairs [OF tiles sched] unfolding body_def by blast
  define ys where "ys = map (Pair (0::nat)) [0..N - 1]"
  have ys: "run [] (For_count N (code 0 ptrs)) m = run_pairs body ys m"
    using for_loop_run_pairs [of 0 N body 0 m] by (simp add: body_def ys_def)
  have ysI: "snd ` set ys = {0..<N}" by (auto simp: ys_def image_iff)
  have ro': "\<And>f i m. i \<in> {0..<N} \<Longrightarrow> ro (body f i m) = ro m" using ro by (simp add: body_def)
  have wr': "\<And>f f' i m m' k. i \<in> {0..<N} \<Longrightarrow> k \<in> rows i \<Longrightarrow> ro m = ro m' \<Longrightarrow>
               obs (body f i m) k = obs (body f' i m') k" using wr by (simp add: body_def)
  have fr': "\<And>f i m k. i \<in> {0..<N} \<Longrightarrow> k \<notin> rows i \<Longrightarrow> obs (body f i m) k = obs m k"
    using fr by (simp add: body_def)
  have "obs (run_pairs body xs m) k = obs (run_pairs body ys m) k"
    by (rule run_pairs_obs_eq [where ro = ro and rows = rows and I = "{0..<N}" and body = body
          and obs = obs, OF ro' wr' fr' dj])
      (simp_all add: xs ysI)
  then show "obs (run schedule (StartTasks_WaitAll (TaskFunction name code)
                  (map (\<lambda>(s, e). (ptrs, s, e)) rs)) m) k =
         obs (run [] (For_count N (code 0 ptrs)) m) k" by (simp only: xs ys)
  have "ro (run_pairs body xs m) = ro m" by (rule run_pairs_ro [where body = body and ro = ro and I = "{0..<N}", OF ro']) (simp_all add: xs)
  moreover have "ro (run_pairs body ys m) = ro m" by (rule run_pairs_ro [where body = body and ro = ro and I = "{0..<N}", OF ro']) (simp_all add: ysI)
  ultimately show "ro (run schedule (StartTasks_WaitAll (TaskFunction name code)
                  (map (\<lambda>(s, e). (ptrs, s, e)) rs)) m) =
         ro (run [] (For_count N (code 0 ptrs)) m)" by (simp only: xs ys)
qed



lemma bind_fault_eq_Inr: "(bind_fault m f = Inr y) = (\<exists>x. m = Inr x \<and> f x = Inr y)"
  by (cases m) simp_all

lemma to_int_eq_Inr: "(to_int x = Inr y) = (INT_MIN \<le> x \<and> x \<le> INT_MAX \<and> y = x)"
  by (auto simp: to_int_def)

lemma ComputeFilterOutput_code:
  assumes "ComputeFilterOutput ops node zeroPadding outputColumns packedRowSize packedRowStride
             useVectorInstructions vectorSize numVectorBlocks = Inr code"
  shows "\<exists>numScalarBlocks totalBits partialBlockSize filterAdjust vectorLoop scalarLoop.
     numScalarBlocks = packedRowSize - vectorSize * numVectorBlocks \<and>
     (0 < numVectorBlocks \<longrightarrow> EmitInnerLoop_vector vectorSize 0 numVectorBlocks zeroPadding = Inr vectorLoop) \<and>
     (0 < numScalarBlocks \<longrightarrow>
        EmitInnerLoop (vectorSize * numVectorBlocks) numScalarBlocks zeroPadding = Inr scalarLoop) \<and>
     (0 < numScalarBlocks \<or> 0 < numVectorBlocks) \<and>
     code = filter_code ops (weightsScale (convolutionalParameters node) = mean) zeroPadding
              outputColumns packedRowSize packedRowStride vectorSize numVectorBlocks
              numScalarBlocks totalBits partialBlockSize filterAdjust vectorLoop scalarLoop"
  using assms
  unfolding ComputeFilterOutput_def Let_def bind_fault_eq_Inr
  apply (elim exE conjE)
  apply (simp only: int_mul_def int_sub_def to_int_eq_Inr sum.inject)
  apply (elim conjE)
  apply (rule_tac x = "packedRowSize - vectorSize * numVectorBlocks" in exI)
  apply (rule exI)
  apply (rule_tac x = xb in exI)
  apply (rule_tac x = xi in exI)
  apply (rule_tac x = xe in exI)
  apply (rule_tac x = xf in exI)
  apply (intro conjI)
      apply (rule refl)
     apply (simp add: assert_def bind_fault_eq_Inr split: if_splits)
    apply (simp split: if_splits)
   apply (simp add: assert_def split: if_splits)
  apply (simp only: filter_code_def [abs_def] column_code_def [abs_def] Let_def)
  apply (erule sym)
  done


lemma int_add_ok: "INT_MIN \<le> a + b \<Longrightarrow> a + b \<le> INT_MAX \<Longrightarrow> int_add a b = Inr (a + b)"
  by (simp add: int_add_def to_int_def)










end
